theory Spec2Isabelle
  imports Main "HOL-Library.Word"
begin

unbundle bit_operations_syntax

section \<open>Errors\<close>

text \<open>
  Go errors as values. The secret store (the Kubernetes API) answers with status errors that
  carry a reason; \<^verbatim>\<open>errors.Errorf\<close> and \<^verbatim>\<open>fmt.Errorf\<close> build plain errors;
  \<^verbatim>\<open>errors.Wrapf\<close> and \<^verbatim>\<open>errors.WithStack\<close> wrap an error and keep it as the cause.
  A nil error is \<open>None\<close> of \<open>error option\<close>, or the \<open>Inr\<close> side of a sum.
\<close>

datatype StatusReason =
    StatusReasonNotFound
  | StatusReasonAlreadyExists
  | StatusReasonOther string

datatype error =
    StatusError StatusReason
  | PlainError string
  | Wrapf error string
  | WithStack error
  | NilPointerPanic

fun Cause :: "error \<Rightarrow> error" where
  "Cause (Wrapf e msg) = Cause e"
| "Cause (WithStack e) = Cause e"
| "Cause e = e"

text \<open>\<^verbatim>\<open>apierrors.IsNotFound\<close> of the API machinery looks at the error itself.\<close>

fun apierrors_IsNotFound :: "error \<Rightarrow> bool" where
  "apierrors_IsNotFound (StatusError r) = (r = StatusReasonNotFound)"
| "apierrors_IsNotFound e = False"

fun apierrors_IsAlreadyExists :: "error \<Rightarrow> bool" where
  "apierrors_IsAlreadyExists (StatusError r) = (r = StatusReasonAlreadyExists)"
| "apierrors_IsAlreadyExists e = False"

text \<open>
  Modelled from the spec: the package's \<^verbatim>\<open>maskAny\<close> and \<^verbatim>\<open>k8sutil.IsNotFound\<close>,
  \<^verbatim>\<open>k8sutil.IsAlreadyExists\<close> are not among the sources. The spec's taxonomy has NotFound
  and AlreadyExists recognised on an error however it was wrapped with context on the way
  up, so both tests look at the cause; \<^verbatim>\<open>maskAny\<close> adds a stack and keeps the cause.
\<close>

definition maskAny :: "error \<Rightarrow> error" where
  "maskAny e = WithStack e"

definition IsNotFound :: "error \<Rightarrow> bool" where
  "IsNotFound e = apierrors_IsNotFound (Cause e)"

definition IsAlreadyExists :: "error \<Rightarrow> bool" where
  "IsAlreadyExists e = apierrors_IsAlreadyExists (Cause e)"

text \<open>
  The spec's taxonomy tells a store error (NotFound, AlreadyExists, any other failure of
  the store) from a validation error: an error is a store error when its cause is a status
  error of the API.
\<close>

fun isStatusError :: "error \<Rightarrow> bool" where
  "isStatusError (StatusError r) = True"
| "isStatusError e = False"

definition isStoreError :: "error \<Rightarrow> bool" where
  "isStoreError e = isStatusError (Cause e)"

section \<open>Go values behind \<^verbatim>\<open>interface{}\<close>\<close>

text \<open>
  A value of type \<^verbatim>\<open>interface{}\<close> carries its dynamic type. The claim set of a token is
  such a value: a \<^verbatim>\<open>map[string]interface{}\<close> in the package's variable, a
  \<^verbatim>\<open>jwt.MapClaims\<close> (a defined type over the same map) in a parsed token, whose entries
  come out of the JSON decoder as strings, float64 numbers, booleans, nil,
  \<^verbatim>\<open>[]interface{}\<close> and \<^verbatim>\<open>map[string]interface{}\<close>. A Go map is an association list
  with distinct keys; a float64 is its 64 bits.
\<close>

datatype go_value =
    GoNil
  | GoBool bool
  | GoFloat64 "64 word"
  | GoString string
  | GoStringSlice "string list"
  | GoSlice "go_value list"
  | GoMap "(string \<times> go_value) list"
  | GoMapClaims "(string \<times> go_value) list"

datatype go_type =
    TNil | TBool | TFloat64 | TString | TStringSlice | TSlice | TMap | TMapClaims

fun go_type_of :: "go_value \<Rightarrow> go_type" where
  "go_type_of GoNil = TNil"
| "go_type_of (GoBool b) = TBool"
| "go_type_of (GoFloat64 f) = TFloat64"
| "go_type_of (GoString s) = TString"
| "go_type_of (GoStringSlice xs) = TStringSlice"
| "go_type_of (GoSlice xs) = TSlice"
| "go_type_of (GoMap m) = TMap"
| "go_type_of (GoMapClaims m) = TMapClaims"

text \<open>IEEE equality of two float64 values: a NaN equals nothing, the two zeros are equal.\<close>

definition f64_isNaN :: "64 word \<Rightarrow> bool" where
  "f64_isNaN w =
     (w AND 0x7FF0000000000000 = 0x7FF0000000000000 \<and> w AND 0x000FFFFFFFFFFFFF \<noteq> 0)"

definition f64_isZero :: "64 word \<Rightarrow> bool" where
  "f64_isZero w = (w AND 0x7FFFFFFFFFFFFFFF = 0)"

definition f64_eq :: "64 word \<Rightarrow> 64 word \<Rightarrow> bool" where
  "f64_eq a b =
     (if f64_isNaN a then False else if f64_isNaN b then False
      else if a = b then True else (f64_isZero a \<and> f64_isZero b))"

text \<open>
  \<^verbatim>\<open>equality.Semantic.DeepEqual\<close> of the API machinery (a fork of \<^verbatim>\<open>reflect.DeepEqual\<close>):
  two values of different dynamic types are never equal; slices are equal when they have
  the same length and equal elements (an empty and a nil slice are the same); maps are
  equal when they have the same number of keys and every key of the first has an equal
  value in the second. Elements of interface type are compared by their dynamic values,
  with the same test on the types.
\<close>

fun deepValueEqual :: "go_value \<Rightarrow> go_value \<Rightarrow> bool"
  and deepEqualSlice :: "go_value list \<Rightarrow> go_value list \<Rightarrow> bool"
  and deepEqualMap :: "(string \<times> go_value) list \<Rightarrow> (string \<times> go_value) list \<Rightarrow> bool"
where
  "deepValueEqual GoNil b = (case b of GoNil \<Rightarrow> True | _ \<Rightarrow> False)"
| "deepValueEqual (GoBool x) b = (case b of GoBool y \<Rightarrow> x = y | _ \<Rightarrow> False)"
| "deepValueEqual (GoFloat64 x) b = (case b of GoFloat64 y \<Rightarrow> f64_eq x y | _ \<Rightarrow> False)"
| "deepValueEqual (GoString x) b = (case b of GoString y \<Rightarrow> x = y | _ \<Rightarrow> False)"
| "deepValueEqual (GoStringSlice xs) b =
     (case b of GoStringSlice ys \<Rightarrow> xs = ys | _ \<Rightarrow> False)"
| "deepValueEqual (GoSlice xs) b =
     (case b of GoSlice ys \<Rightarrow> deepEqualSlice xs ys | _ \<Rightarrow> False)"
| "deepValueEqual (GoMap m1) b =
     (case b of GoMap m2 \<Rightarrow> length m1 = length m2 \<and> deepEqualMap m1 m2 | _ \<Rightarrow> False)"
| "deepValueEqual (GoMapClaims m1) b =
     (case b of
        GoMapClaims m2 \<Rightarrow> length m1 = length m2 \<and> deepEqualMap m1 m2
      | _ \<Rightarrow> False)"
| "deepEqualSlice [] ys = (ys = [])"
| "deepEqualSlice (x # xs) ys =
     (case ys of [] \<Rightarrow> False | y # ys' \<Rightarrow> deepValueEqual x y \<and> deepEqualSlice xs ys')"
| "deepEqualMap [] m2 = True"
| "deepEqualMap ((k, v) # m1) m2 =
     (case map_of m2 k of
        None \<Rightarrow> False
      | Some v' \<Rightarrow> deepValueEqual v v' \<and> deepEqualMap m1 m2)"

definition DeepEqual :: "go_value \<Rightarrow> go_value \<Rightarrow> bool" where
  "DeepEqual a1 a2 =
     (if a1 = GoNil \<or> a2 = GoNil then a1 = a2
      else if go_type_of a1 = go_type_of a2 then deepValueEqual a1 a2
      else False)"

text \<open>The type assertion \<^verbatim>\<open>token.Claims.(jg.MapClaims)\<close>.\<close>

fun assertMapClaims :: "go_value \<Rightarrow> go_value option" where
  "assertMapClaims (GoMapClaims m) = Some (GoMapClaims m)"
| "assertMapClaims v = None"

section \<open>Secrets and the deployment's desired state\<close>

record OwnerReference =
  ownerAPIVersion :: string
  ownerKind :: string
  ownerName :: string
  ownerUID :: string
  ownerController :: "bool option"
  ownerBlockOwnerDeletion :: "bool option"

record Secret =
  secretName :: string
  secretOwnerReferences :: "OwnerReference list"
  Data :: "(string \<times> string) list"

record TLSSpec =
  CASecretName :: string

record SyncAuthenticationSpec =
  syncJWTSecretName :: string
  ClientCASecretName :: string

text \<open>
  The part of \<^verbatim>\<open>api.DeploymentSpec\<close> that \<^verbatim>\<open>EnsureSecrets\<close> reads. The package of the
  spec is not among the sources: each of its predicates (\<^verbatim>\<open>IsAuthenticated\<close>,
  \<^verbatim>\<open>IsSecure\<close>, \<^verbatim>\<open>IsEncrypted\<close>, \<^verbatim>\<open>IsEnabled\<close>) and each name getter is taken as a
  field, so every combination of answers is covered.
\<close>

record DeploymentSpec =
  IsAuthenticated :: bool
  Authentication_JWTSecretName :: string
  Metrics_IsEnabled :: bool
  Metrics_JWTTokenSecretName :: string
  IsSecure :: bool
  TLS :: TLSSpec
  RocksDB_IsEncrypted :: bool
  RocksDB_Encryption_KeySecretName :: string
  Sync_IsEnabled :: bool
  Sync_Authentication :: SyncAuthenticationSpec
  Sync_Monitoring_TokenSecretName :: string
  Sync_TLS :: TLSSpec

text \<open>
  What \<^verbatim>\<open>r.context\<close> answers: the spec, the API object's name and its owner reference.
\<close>

record Resources =
  GetSpec :: DeploymentSpec
  GetName :: string
  AsOwner :: OwnerReference

section \<open>The collaborators that are not among the sources\<close>

text \<open>
  The secret interface of the store (\<^verbatim>\<open>Get\<close>, \<^verbatim>\<open>Delete\<close>), the helpers of
  \<^verbatim>\<open>k8sutil\<close> built on it, the two certificate creators, the random source, the JWT
  parser and the constants of \<^verbatim>\<open>constants\<close>, \<^verbatim>\<open>k8sutil\<close> and \<^verbatim>\<open>pod\<close> are parameters.
  The world \<open>'w\<close> is everything outside the process: the store, what other controllers do
  to it between two calls, the entropy. Every call takes the world and returns the next
  one, so a result that holds for every environment holds under every interleaving with
  other writers and under every failure of the store.
\<close>

record 'w env =
  Get :: "string \<Rightarrow> 'w \<Rightarrow> (error + Secret) \<times> 'w"
  Delete :: "string \<Rightarrow> 'w \<Rightarrow> error option \<times> 'w"
  GetTokenSecret :: "string \<Rightarrow> 'w \<Rightarrow> (error + string) \<times> 'w"
  CreateTokenSecret :: "string \<Rightarrow> string \<Rightarrow> OwnerReference \<Rightarrow> 'w \<Rightarrow> error option \<times> 'w"
  CreateJWTFromSecret ::
    "string \<Rightarrow> string \<Rightarrow> go_value \<Rightarrow> OwnerReference \<Rightarrow> 'w \<Rightarrow> error option \<times> 'w"
  AppendKeyfileToKeyfolder ::
    "OwnerReference \<Rightarrow> string \<Rightarrow> string \<Rightarrow> 'w \<Rightarrow> error option \<times> 'w"
  createTLSCACertificate ::
    "TLSSpec \<Rightarrow> string \<Rightarrow> OwnerReference \<Rightarrow> 'w \<Rightarrow> error option \<times> 'w"
  createClientAuthCACertificate ::
    "SyncAuthenticationSpec \<Rightarrow> string \<Rightarrow> OwnerReference \<Rightarrow> 'w \<Rightarrow> error option \<times> 'w"
  randRead :: "nat \<Rightarrow> 'w \<Rightarrow> 8 word list \<times> 'w"
  jwtParse :: "string \<Rightarrow> string \<Rightarrow> error + go_value"
  SecretKeyToken :: string
  SecretEncryptionKey :: string
  ArangoExporterInternalEndpoint :: string
  GetKeyfolderSecretName :: "string \<Rightarrow> string"

section \<open>The credential reconciler\<close>

text \<open>\<^verbatim>\<open>hex.EncodeToString\<close>: two lower-case hexadecimal digits per byte.\<close>

definition hextable :: string where
  "hextable = ''0123456789abcdef''"

definition hexEncodeToString :: "8 word list \<Rightarrow> string" where
  "hexEncodeToString bs =
     concat (map (\<lambda>b. [hextable ! unat (drop_bit 4 b), hextable ! unat (b AND 15)]) bs)"

text \<open>
  \<^verbatim>\<open>ensureTokenSecret\<close>. The buffer of 32 zero bytes is overwritten by what the random
  source delivers; the result of \<^verbatim>\<open>rand.Read\<close> is not looked at.
\<close>

definition ensureTokenSecret ::
  "'w env \<Rightarrow> Resources \<Rightarrow> string \<Rightarrow> 'w \<Rightarrow> error option \<times> 'w" where
  "ensureTokenSecret E r name w =
     (case Get E name w of
        (Inl err, w1) \<Rightarrow>
          if IsNotFound err then
            (case randRead E 32 w1 of
               (bs, w2) \<Rightarrow>
                 (let tokenData = take 32 (bs @ replicate 32 0);
                      token = hexEncodeToString tokenData;
                      owner = AsOwner r
                  in case CreateTokenSecret E name token owner w2 of
                       (Some e, w3) \<Rightarrow>
                         if IsAlreadyExists e then (None, w3) else (Some (maskAny e), w3)
                     | (None, w3) \<Rightarrow> (None, w3)))
          else (Some (maskAny err), w1)
      | (Inr s, w1) \<Rightarrow> (None, w1))"

definition ensureEncryptionKeyfolderSecret ::
  "'w env \<Rightarrow> Resources \<Rightarrow> string \<Rightarrow> string \<Rightarrow> 'w \<Rightarrow> error option \<times> 'w" where
  "ensureEncryptionKeyfolderSecret E r keyfileSecretName name w =
     (case Get E keyfileSecretName w of
        (Inl err, w1) \<Rightarrow> (Some (Wrapf err ''Unable to find original secret''), w1)
      | (Inr keyfile, w1) \<Rightarrow>
          if length (Data keyfile) = 0 then (Some (PlainError ''Missing key in secret''), w1)
          else
            (case map_of (Data keyfile) (SecretEncryptionKey E) of
               None \<Rightarrow> (Some (PlainError ''Missing key in secret''), w1)
             | Some d \<Rightarrow>
                 (case AppendKeyfileToKeyfolder E (AsOwner r) name d w1 of
                    (Some err, w2) \<Rightarrow>
                      (Some (Wrapf err ''Unable to create keyfolder secret''), w2)
                  | (None, w2) \<Rightarrow> (None, w2))))"

definition exporterTokenClaims :: "'w env \<Rightarrow> go_value" where
  "exporterTokenClaims E =
     GoMap
       [(''iss'', GoString ''arangodb''),
        (''server_id'', GoString ''exporter''),
        (''allowed_paths'',
           GoStringSlice
             [''/_admin/statistics'', ''/_admin/statistics-description'',
              ArangoExporterInternalEndpoint E])]"

text \<open>
  \<^verbatim>\<open>ensureExporterTokenSecretCreateRequired\<close> answers (recreate, exists, error). The
  key function handed to \<^verbatim>\<open>jg.Parse\<close> returns the bytes of the signing secret.
\<close>

definition ensureExporterTokenSecretCreateRequired ::
  "'w env \<Rightarrow> string \<Rightarrow> string \<Rightarrow> 'w \<Rightarrow> (bool \<times> bool \<times> error option) \<times> 'w" where
  "ensureExporterTokenSecretCreateRequired E tokenSecretName secretSecretName w =
     (case Get E tokenSecretName w of
        (Inl err, w1) \<Rightarrow>
          if IsNotFound err then ((True, False, None), w1)
          else ((False, False, Some (maskAny err)), w1)
      | (Inr secret, w1) \<Rightarrow>
          (case map_of (Data secret) (SecretKeyToken E) of
             None \<Rightarrow> ((True, True, None), w1)
           | Some data \<Rightarrow>
               (case GetTokenSecret E secretSecretName w1 of
                  (Inl err, w2) \<Rightarrow> ((False, True, Some (maskAny err)), w2)
                | (Inr key, w2) \<Rightarrow>
                    (case jwtParse E data key of
                       Inl err \<Rightarrow> ((True, True, None), w2)
                     | Inr claims \<Rightarrow>
                         (case assertMapClaims claims of
                            None \<Rightarrow> ((True, True, None), w2)
                          | Some tokenClaims \<Rightarrow>
                              ((\<not> DeepEqual tokenClaims (exporterTokenClaims E), True, None),
                               w2))))))"

text \<open>The creating half of \<^verbatim>\<open>ensureExporterTokenSecret\<close>, after the optional delete.\<close>

definition createExporterToken ::
  "'w env \<Rightarrow> Resources \<Rightarrow> string \<Rightarrow> string \<Rightarrow> 'w \<Rightarrow> error option \<times> 'w" where
  "createExporterToken E r tokenSecretName secretSecretName w =
     (case CreateJWTFromSecret E tokenSecretName secretSecretName (exporterTokenClaims E)
             (AsOwner r) w of
        (Some e, w1) \<Rightarrow> if IsAlreadyExists e then (None, w1) else (Some (maskAny e), w1)
      | (None, w1) \<Rightarrow> (None, w1))"

definition ensureExporterTokenSecret ::
  "'w env \<Rightarrow> Resources \<Rightarrow> string \<Rightarrow> string \<Rightarrow> 'w \<Rightarrow> error option \<times> 'w" where
  "ensureExporterTokenSecret E r tokenSecretName secretSecretName w =
     (case ensureExporterTokenSecretCreateRequired E tokenSecretName secretSecretName w of
        ((recreate, exists, Some err), w1) \<Rightarrow> (Some err, w1)
      | ((recreate, exists, None), w1) \<Rightarrow>
          if recreate then
            (if exists then
               (case Delete E tokenSecretName w1 of
                  (Some err, w2) \<Rightarrow>
                    if apierrors_IsNotFound err
                    then createExporterToken E r tokenSecretName secretSecretName w2
                    else (Some err, w2)
                | (None, w2) \<Rightarrow> createExporterToken E r tokenSecretName secretSecretName w2)
             else createExporterToken E r tokenSecretName secretSecretName w1)
          else (None, w1))"

definition ensureTLSCACertificateSecret ::
  "'w env \<Rightarrow> Resources \<Rightarrow> TLSSpec \<Rightarrow> 'w \<Rightarrow> error option \<times> 'w" where
  "ensureTLSCACertificateSecret E r spec w =
     (case Get E (CASecretName spec) w of
        (Inl err, w1) \<Rightarrow>
          if IsNotFound err then
            (case createTLSCACertificate E spec (GetName r) (AsOwner r) w1 of
               (Some e, w2) \<Rightarrow>
                 if IsAlreadyExists e then (None, w2) else (Some (maskAny e), w2)
             | (None, w2) \<Rightarrow> (None, w2))
          else (Some (maskAny err), w1)
      | (Inr s, w1) \<Rightarrow> (None, w1))"

definition ensureClientAuthCACertificateSecret ::
  "'w env \<Rightarrow> Resources \<Rightarrow> SyncAuthenticationSpec \<Rightarrow> 'w \<Rightarrow> error option \<times> 'w" where
  "ensureClientAuthCACertificateSecret E r spec w =
     (case Get E (ClientCASecretName spec) w of
        (Inl err, w1) \<Rightarrow>
          if IsNotFound err then
            (case createClientAuthCACertificate E spec (GetName r) (AsOwner r) w1 of
               (Some e, w2) \<Rightarrow>
                 if IsAlreadyExists e then (None, w2) else (Some (maskAny e), w2)
             | (None, w2) \<Rightarrow> (None, w2))
          else (Some (maskAny err), w1)
      | (Inr s, w1) \<Rightarrow> (None, w1))"

text \<open>
  One pass of \<^verbatim>\<open>EnsureSecrets\<close> threads the world and the counter of inspected
  secrets (\<^verbatim>\<open>counterMetric.Inc()\<close>). The duration gauge set on return reads the clock
  and is left out. \<open>andThen\<close> is the early return on an error, \<open>whenE\<close> an \<^verbatim>\<open>if\<close>
  without \<^verbatim>\<open>else\<close>, \<open>masked\<close> the pattern
  \<^verbatim>\<open>if err := f(); err != nil { return maskAny(err) }\<close>.
\<close>

definition Inc :: "'w \<times> nat \<Rightarrow> error option \<times> ('w \<times> nat)" where
  "Inc s = (None, (fst s, Suc (snd s)))"

definition masked ::
  "('w \<Rightarrow> error option \<times> 'w) \<Rightarrow> 'w \<times> nat \<Rightarrow> error option \<times> ('w \<times> nat)" where
  "masked f s =
     (case f (fst s) of
        (Some err, w') \<Rightarrow> (Some (maskAny err), (w', snd s))
      | (None, w') \<Rightarrow> (None, (w', snd s)))"

definition andThen ::
  "('s \<Rightarrow> error option \<times> 's) \<Rightarrow> ('s \<Rightarrow> error option \<times> 's) \<Rightarrow> 's \<Rightarrow> error option \<times> 's"
  where
  "andThen f g s =
     (case f s of
        (Some err, s') \<Rightarrow> (Some err, s')
      | (None, s') \<Rightarrow> g s')"

definition whenE :: "bool \<Rightarrow> ('s \<Rightarrow> error option \<times> 's) \<Rightarrow> 's \<Rightarrow> error option \<times> 's" where
  "whenE b f s = (if b then f s else (None, s))"

definition EnsureSecrets ::
  "'w env \<Rightarrow> Resources \<Rightarrow> 'w \<times> nat \<Rightarrow> error option \<times> ('w \<times> nat)" where
  "EnsureSecrets E r =
     (let spec = GetSpec r; deploymentName = GetName r in
      andThen
        (whenE (IsAuthenticated spec)
          (andThen Inc
          (andThen (masked (ensureTokenSecret E r (Authentication_JWTSecretName spec)))
            (whenE (Metrics_IsEnabled spec)
              (masked (ensureExporterTokenSecret E r (Metrics_JWTTokenSecretName spec)
                         (Authentication_JWTSecretName spec)))))))
      (andThen
        (whenE (IsSecure spec)
          (andThen Inc (masked (ensureTLSCACertificateSecret E r (TLS spec)))))
      (andThen
        (whenE (RocksDB_IsEncrypted spec)
          (masked (ensureEncryptionKeyfolderSecret E r (RocksDB_Encryption_KeySecretName spec)
                     (GetKeyfolderSecretName E deploymentName))))
        (whenE (Sync_IsEnabled spec)
          (andThen Inc
          (andThen (masked (ensureTokenSecret E r (syncJWTSecretName (Sync_Authentication spec))))
          (andThen Inc
          (andThen (masked (ensureTokenSecret E r (Sync_Monitoring_TokenSecretName spec)))
          (andThen Inc
          (andThen (masked (ensureTLSCACertificateSecret E r (Sync_TLS spec)))
          (andThen Inc
            (masked (ensureClientAuthCACertificateSecret E r (Sync_Authentication spec))))))))))))))"

section \<open>An in-memory secret store\<close>

text \<open>
  Modelled from the spec: the secret store adapter of section 6 (get answers found or not
  found, create answers ok or already exists, delete answers ok or not found) and the
  helpers of \<^verbatim>\<open>k8sutil\<close> over it, none of which is among the sources. It is one
  environment among all those the reconciler is proved for, and the one the concrete
  evaluations below run on. The world holds the secrets, the secrets that another
  controller creates right after this process's next read (the race of section 8), and the
  bytes the random source will deliver. Signing, verifying and certificate generation are
  given by a codec.
\<close>

record mem_world =
  secrets :: "(string \<times> Secret) list"
  interference :: "Secret list"
  entropy :: "8 word list"

record codec =
  jwtSign :: "string \<Rightarrow> go_value \<Rightarrow> string"
  jwtVerify :: "string \<Rightarrow> string \<Rightarrow> error + go_value"
  newCA :: "string \<Rightarrow> string \<times> string"

definition memInsert :: "(string \<times> Secret) list \<Rightarrow> Secret \<Rightarrow> (string \<times> Secret) list" where
  "memInsert m s =
     (case map_of m (secretName s) of
        None \<Rightarrow> m @ [(secretName s, s)]
      | Some old \<Rightarrow> m)"

definition memGet :: "string \<Rightarrow> mem_world \<Rightarrow> (error + Secret) \<times> mem_world" where
  "memGet name w =
     ((case map_of (secrets w) name of
         None \<Rightarrow> Inl (StatusError StatusReasonNotFound)
       | Some s \<Rightarrow> Inr s),
      w\<lparr>secrets := foldl memInsert (secrets w) (interference w), interference := []\<rparr>)"

definition memCreate :: "Secret \<Rightarrow> mem_world \<Rightarrow> error option \<times> mem_world" where
  "memCreate s w =
     (case map_of (secrets w) (secretName s) of
        None \<Rightarrow> (None, w\<lparr>secrets := secrets w @ [(secretName s, s)]\<rparr>)
      | Some old \<Rightarrow> (Some (StatusError StatusReasonAlreadyExists), w))"

definition memDelete :: "string \<Rightarrow> mem_world \<Rightarrow> error option \<times> mem_world" where
  "memDelete name w =
     (case map_of (secrets w) name of
        None \<Rightarrow> (Some (StatusError StatusReasonNotFound), w)
      | Some old \<Rightarrow> (None, w\<lparr>secrets := filter (\<lambda>p. fst p \<noteq> name) (secrets w)\<rparr>))"

definition memGetTokenSecret :: "string \<Rightarrow> mem_world \<Rightarrow> (error + string) \<times> mem_world" where
  "memGetTokenSecret name w =
     (case memGet name w of
        (Inl err, w1) \<Rightarrow> (Inl (maskAny err), w1)
      | (Inr s, w1) \<Rightarrow>
          (case map_of (Data s) ''token'' of
             None \<Rightarrow> (Inl (maskAny (PlainError ''No token data found in secret'')), w1)
           | Some d \<Rightarrow> (Inr d, w1)))"

definition memCreateTokenSecret ::
  "string \<Rightarrow> string \<Rightarrow> OwnerReference \<Rightarrow> mem_world \<Rightarrow> error option \<times> mem_world" where
  "memCreateTokenSecret name token owner w =
     memCreate
       \<lparr>secretName = name, secretOwnerReferences = [owner], Data = [(''token'', token)]\<rparr> w"

definition memCreateJWTFromSecret ::
  "codec \<Rightarrow> string \<Rightarrow> string \<Rightarrow> go_value \<Rightarrow> OwnerReference \<Rightarrow> mem_world
     \<Rightarrow> error option \<times> mem_world" where
  "memCreateJWTFromSecret c tokenSecretName secretSecretName claims owner w =
     (case memGetTokenSecret secretSecretName w of
        (Inl err, w1) \<Rightarrow> (Some (maskAny err), w1)
      | (Inr key, w1) \<Rightarrow> memCreateTokenSecret tokenSecretName (jwtSign c key claims) owner w1)"

definition memAppendKeyfileToKeyfolder ::
  "OwnerReference \<Rightarrow> string \<Rightarrow> string \<Rightarrow> mem_world \<Rightarrow> error option \<times> mem_world" where
  "memAppendKeyfileToKeyfolder owner name d w =
     (case memGet name w of
        (Inl err, w1) \<Rightarrow>
          if IsNotFound err then
            memCreate
              \<lparr>secretName = name, secretOwnerReferences = [owner], Data = [(''key'', d)]\<rparr> w1
          else (Some err, w1)
      | (Inr s, w1) \<Rightarrow> (None, w1))"

definition memCreateCA ::
  "codec \<Rightarrow> string \<Rightarrow> string \<Rightarrow> OwnerReference \<Rightarrow> mem_world \<Rightarrow> error option \<times> mem_world"
  where
  "memCreateCA c name deploymentName owner w =
     memCreate
       \<lparr>secretName = name, secretOwnerReferences = [owner],
        Data = [(''ca.crt'', fst (newCA c deploymentName)),
                (''ca.key'', snd (newCA c deploymentName))]\<rparr> w"

definition memRandRead :: "nat \<Rightarrow> mem_world \<Rightarrow> 8 word list \<times> mem_world" where
  "memRandRead n w = (take n (entropy w), w\<lparr>entropy := drop n (entropy w)\<rparr>)"

definition memEnv :: "codec \<Rightarrow> mem_world env" where
  "memEnv c =
     \<lparr>Get = memGet,
      Delete = memDelete,
      GetTokenSecret = memGetTokenSecret,
      CreateTokenSecret = memCreateTokenSecret,
      CreateJWTFromSecret = memCreateJWTFromSecret c,
      AppendKeyfileToKeyfolder = memAppendKeyfileToKeyfolder,
      createTLSCACertificate = (\<lambda>spec. memCreateCA c (CASecretName spec)),
      createClientAuthCACertificate = (\<lambda>spec. memCreateCA c (ClientCASecretName spec)),
      randRead = memRandRead,
      jwtParse = jwtVerify c,
      SecretKeyToken = ''token'',
      SecretEncryptionKey = ''key'',
      ArangoExporterInternalEndpoint = ''/_admin/metrics'',
      GetKeyfolderSecretName = (\<lambda>name. name @ ''-encryption-folder'')\<rparr>"

section \<open>The client factory\<close>

text \<open>
  A context carries the two markers; \<^verbatim>\<open>ctx.Value(key) != nil\<close> is the marker's field.
\<close>

record Context =
  skipAuthenticationKey :: bool
  requireAuthenticationKey :: bool

definition Background :: Context where
  "Background = \<lparr>skipAuthenticationKey = False, requireAuthenticationKey = False\<rparr>"

definition WithSkipAuthentication :: "Context \<Rightarrow> Context" where
  "WithSkipAuthentication ctx = ctx\<lparr>skipAuthenticationKey := True\<rparr>"

definition WithRequireAuthentication :: "Context \<Rightarrow> Context" where
  "WithRequireAuthentication ctx = ctx\<lparr>requireAuthenticationKey := True\<rparr>"

text \<open>A \<^verbatim>\<open>time.Duration\<close> is a number of nanoseconds.\<close>

definition Millisecond :: int where
  "Millisecond = 1000000"

definition Second :: int where
  "Second = 1000 * Millisecond"

definition Minute :: int where
  "Minute = 60 * Second"

record Dialer =
  Timeout :: int
  KeepAlive :: int
  DualStack :: bool

record TLSConfig =
  InsecureSkipVerify :: bool

record Transport =
  ProxyFromEnvironment :: bool
  DialContext :: Dialer
  MaxIdleConns :: int
  IdleConnTimeout :: int
  TLSHandshakeTimeout :: int
  ExpectContinueTimeout :: int
  TLSClientConfig :: "TLSConfig option"

text \<open>
  The four package variables are pointers to transports built once: a pool is named by
  its variable, and \<open>transportAt\<close> is the transport it points to.
\<close>

datatype pool =
    sharedHTTPTransport
  | sharedHTTPSTransport
  | sharedHTTPTransportShortTimeout
  | sharedHTTPSTransportShortTimeout

fun transportAt :: "pool \<Rightarrow> Transport" where
  "transportAt sharedHTTPTransport =
     \<lparr>ProxyFromEnvironment = True,
      DialContext = \<lparr>Timeout = 30 * Second, KeepAlive = 90 * Second, DualStack = True\<rparr>,
      MaxIdleConns = 100,
      IdleConnTimeout = 90 * Second,
      TLSHandshakeTimeout = 10 * Second,
      ExpectContinueTimeout = 1 * Second,
      TLSClientConfig = None\<rparr>"
| "transportAt sharedHTTPSTransport =
     \<lparr>ProxyFromEnvironment = True,
      DialContext = \<lparr>Timeout = 30 * Second, KeepAlive = 90 * Second, DualStack = True\<rparr>,
      MaxIdleConns = 100,
      IdleConnTimeout = 90 * Second,
      TLSHandshakeTimeout = 10 * Second,
      ExpectContinueTimeout = 1 * Second,
      TLSClientConfig = Some \<lparr>InsecureSkipVerify = True\<rparr>\<rparr>"
| "transportAt sharedHTTPTransportShortTimeout =
     \<lparr>ProxyFromEnvironment = True,
      DialContext =
        \<lparr>Timeout = 30 * Second, KeepAlive = 100 * Millisecond, DualStack = True\<rparr>,
      MaxIdleConns = 100,
      IdleConnTimeout = 100 * Millisecond,
      TLSHandshakeTimeout = 10 * Second,
      ExpectContinueTimeout = 1 * Second,
      TLSClientConfig = None\<rparr>"
| "transportAt sharedHTTPSTransportShortTimeout =
     \<lparr>ProxyFromEnvironment = True,
      DialContext =
        \<lparr>Timeout = 30 * Second, KeepAlive = 100 * Millisecond, DualStack = True\<rparr>,
      MaxIdleConns = 100,
      IdleConnTimeout = 100 * Millisecond,
      TLSHandshakeTimeout = 10 * Second,
      ExpectContinueTimeout = 1 * Second,
      TLSClientConfig = Some \<lparr>InsecureSkipVerify = True\<rparr>\<rparr>"

record ConnectionConfig =
  Endpoints :: "string list"
  ConnTransport :: pool
  DontFollowRedirect :: bool

datatype Authentication = RawAuthentication string

record 'c ClientConfig =
  Connection :: 'c
  ClientAuthentication :: "Authentication option"

datatype ServerGroup =
    ServerGroupSingle
  | ServerGroupAgents
  | ServerGroupDBServers
  | ServerGroupCoordinators
  | ServerGroupSyncMasters
  | ServerGroupSyncWorkers

record APIObject =
  objName :: string
  objNamespace :: string

record ArangoDeployment =
  objMeta :: APIObject
  Spec :: DeploymentSpec
  Status_Members_Agents :: "string list"

text \<open>
  The driver, the standard library and the naming helpers of \<^verbatim>\<open>k8sutil\<close> and \<^verbatim>\<open>api\<close>
  are parameters: connections (\<open>'c\<close>), clients (\<open>'d\<close>) and agency handles (\<open>'a\<close>) are
  whatever the driver's constructors return, and each constructor may fail.
\<close>

record ('c, 'd, 'a) driver =
  NewConnection :: "ConnectionConfig \<Rightarrow> error + 'c"
  NewClient :: "'c ClientConfig \<Rightarrow> error + 'd"
  NewAgencyConnection :: "ConnectionConfig \<Rightarrow> error + 'c"
  SetAuthentication :: "'c \<Rightarrow> Authentication \<Rightarrow> error + 'c"
  NewAgency :: "'c \<Rightarrow> error + 'a"
  CreateArangodJwtAuthorizationHeader :: "string \<Rightarrow> string \<Rightarrow> error + string"
  JoinHostPort :: "string \<Rightarrow> string \<Rightarrow> string"
  Itoa :: "int \<Rightarrow> string"
  ArangoPort :: int
  CreatePodDNSName :: "APIObject \<Rightarrow> string \<Rightarrow> string \<Rightarrow> string"
  CreateDatabaseClientServiceDNSName :: "APIObject \<Rightarrow> string"
  AsRole :: "ServerGroup \<Rightarrow> string"

text \<open>
  \<^verbatim>\<open>createArangodHTTPConfigForDNSNames\<close>; the context and the core client are not used
  by it and are left out of its arguments.
\<close>

definition createArangodHTTPConfigForDNSNames ::
  "('c, 'd, 'a) driver \<Rightarrow> ArangoDeployment option \<Rightarrow> string list \<Rightarrow> bool
     \<Rightarrow> error + ConnectionConfig" where
  "createArangodHTTPConfigForDNSNames L apiObject dnsNames shortTimeout =
     (let scheme0 = ''http'';
          transport0 = sharedHTTPTransport;
          transport1 = (if shortTimeout then sharedHTTPTransportShortTimeout else transport0);
          secure = (case apiObject of None \<Rightarrow> False | Some obj \<Rightarrow> IsSecure (Spec obj));
          scheme = (if secure then ''https'' else scheme0);
          transport =
            (if secure
             then (if shortTimeout then sharedHTTPSTransportShortTimeout
                   else sharedHTTPSTransport)
             else transport1)
      in Inr \<lparr>Endpoints =
                 map (\<lambda>dnsName.
                        scheme @ ''://'' @ JoinHostPort L dnsName (Itoa L (ArangoPort L)))
                   dnsNames,
               ConnTransport = transport,
               DontFollowRedirect = True\<rparr>)"

text \<open>
  \<^verbatim>\<open>createArangodClientAuthentication\<close>. The core client is a pointer that
  \<^verbatim>\<open>CreateArangodImageIDClient\<close> passes as nil; \<^verbatim>\<open>cli.Secrets(ns)\<close> on a nil client
  panics. A present client answers, for a namespace, with the environment of that
  namespace's secrets.
\<close>

definition authenticationNotEnabled :: "Context \<Rightarrow> error + Authentication option" where
  "authenticationNotEnabled ctx =
     (if requireAuthenticationKey ctx
      then Inl (maskAny (PlainError
             ''Authentication is required by context, but not provided in API object''))
      else Inr None)"

definition createArangodClientAuthentication ::
  "('c, 'd, 'a) driver \<Rightarrow> Context \<Rightarrow> (string \<Rightarrow> 'w env) option \<Rightarrow> ArangoDeployment option
     \<Rightarrow> 'w \<Rightarrow> (error + Authentication option) \<times> 'w" where
  "createArangodClientAuthentication L ctx cli apiObject w =
     (case apiObject of
        None \<Rightarrow> (authenticationNotEnabled ctx, w)
      | Some obj \<Rightarrow>
          if IsAuthenticated (Spec obj) then
            (if skipAuthenticationKey ctx then (Inr None, w)
             else
               (case cli of
                  None \<Rightarrow> (Inl NilPointerPanic, w)
                | Some k \<Rightarrow>
                    (case GetTokenSecret (k (objNamespace (objMeta obj)))
                            (Authentication_JWTSecretName (Spec obj)) w of
                       (Inl err, w1) \<Rightarrow> (Inl (maskAny err), w1)
                     | (Inr s, w1) \<Rightarrow>
                         (case CreateArangodJwtAuthorizationHeader L s ''kube-arangodb'' of
                            Inl err \<Rightarrow> (Inl (maskAny err), w1)
                          | Inr jwt \<Rightarrow> (Inr (Some (RawAuthentication jwt)), w1)))))
          else (authenticationNotEnabled ctx, w))"

definition createArangodClientForDNSName ::
  "('c, 'd, 'a) driver \<Rightarrow> Context \<Rightarrow> (string \<Rightarrow> 'w env) option \<Rightarrow> ArangoDeployment option
     \<Rightarrow> string \<Rightarrow> bool \<Rightarrow> 'w \<Rightarrow> (error + 'd) \<times> 'w" where
  "createArangodClientForDNSName L ctx cli apiObject dnsName shortTimeout w =
     (case createArangodHTTPConfigForDNSNames L apiObject [dnsName] shortTimeout of
        Inl err \<Rightarrow> (Inl (maskAny err), w)
      | Inr connConfig \<Rightarrow>
          (case NewConnection L connConfig of
             Inl err \<Rightarrow> (Inl (maskAny err), w)
           | Inr conn \<Rightarrow>
               (case createArangodClientAuthentication L ctx cli apiObject w of
                  (Inl err, w1) \<Rightarrow> (Inl (maskAny err), w1)
                | (Inr auth, w1) \<Rightarrow>
                    (case NewClient L \<lparr>Connection = conn, ClientAuthentication = auth\<rparr> of
                       Inl err \<Rightarrow> (Inl (maskAny err), w1)
                     | Inr c \<Rightarrow> (Inr c, w1)))))"

definition masking :: "(error + 'x) \<times> 'w \<Rightarrow> (error + 'x) \<times> 'w" where
  "masking res =
     (case res of
        (Inl err, w1) \<Rightarrow> (Inl (maskAny err), w1)
      | (Inr c, w1) \<Rightarrow> (Inr c, w1))"

definition CreateArangodClient ::
  "('c, 'd, 'a) driver \<Rightarrow> Context \<Rightarrow> (string \<Rightarrow> 'w env) option \<Rightarrow> ArangoDeployment
     \<Rightarrow> ServerGroup \<Rightarrow> string \<Rightarrow> 'w \<Rightarrow> (error + 'd) \<times> 'w" where
  "CreateArangodClient L ctx cli apiObject grp ident w =
     (let dnsName = CreatePodDNSName L (objMeta apiObject) (AsRole L grp) ident
      in masking (createArangodClientForDNSName L ctx cli (Some apiObject) dnsName False w))"

definition CreateArangodDatabaseClient ::
  "('c, 'd, 'a) driver \<Rightarrow> Context \<Rightarrow> (string \<Rightarrow> 'w env) option \<Rightarrow> ArangoDeployment
     \<Rightarrow> bool \<Rightarrow> 'w \<Rightarrow> (error + 'd) \<times> 'w" where
  "CreateArangodDatabaseClient L ctx cli apiObject shortTimeout w =
     (let dnsName = CreateDatabaseClientServiceDNSName L (objMeta apiObject)
      in masking
           (createArangodClientForDNSName L ctx cli (Some apiObject) dnsName shortTimeout w))"

definition CreateArangodAgencyClient ::
  "('c, 'd, 'a) driver \<Rightarrow> Context \<Rightarrow> (string \<Rightarrow> 'w env) option \<Rightarrow> ArangoDeployment
     \<Rightarrow> 'w \<Rightarrow> (error + 'a) \<times> 'w" where
  "CreateArangodAgencyClient L ctx cli apiObject w =
     (let dnsNames =
            map (\<lambda>m. CreatePodDNSName L (objMeta apiObject) (AsRole L ServerGroupAgents) m)
              (Status_Members_Agents apiObject);
          shortTimeout = False
      in case createArangodHTTPConfigForDNSNames L (Some apiObject) dnsNames shortTimeout of
           Inl err \<Rightarrow> (Inl (maskAny err), w)
         | Inr connConfig \<Rightarrow>
             (case NewAgencyConnection L connConfig of
                Inl err \<Rightarrow> (Inl (maskAny err), w)
              | Inr agencyConn \<Rightarrow>
                  (case createArangodClientAuthentication L ctx cli (Some apiObject) w of
                     (Inl err, w1) \<Rightarrow> (Inl (maskAny err), w1)
                   | (Inr None, w1) \<Rightarrow>
                       (case NewAgency L agencyConn of
                          Inl err \<Rightarrow> (Inl (maskAny err), w1)
                        | Inr a \<Rightarrow> (Inr a, w1))
                   | (Inr (Some auth), w1) \<Rightarrow>
                       (case SetAuthentication L agencyConn auth of
                          Inl err \<Rightarrow> (Inl (maskAny err), w1)
                        | Inr agencyConn' \<Rightarrow>
                            (case NewAgency L agencyConn' of
                               Inl err \<Rightarrow> (Inl (maskAny err), w1)
                             | Inr a \<Rightarrow> (Inr a, w1))))))"

definition CreateArangodImageIDClient ::
  "('c, 'd, 'a) driver \<Rightarrow> Context \<Rightarrow> APIObject \<Rightarrow> string \<Rightarrow> string \<Rightarrow> 'w
     \<Rightarrow> (error + 'd) \<times> 'w" where
  "CreateArangodImageIDClient L ctx deployment role ident w =
     (let dnsName = CreatePodDNSName L deployment role ident
      in masking (createArangodClientForDNSName L ctx None None dnsName False w))"

section \<open>The backup state machine\<close>

datatype State =
    ArangoBackupStatePending
  | ArangoBackupStateDownloadError
  | ArangoBackupStateOther string

text \<open>A time is a number of nanoseconds since the epoch.\<close>

record ArangoBackupStatus =
  backupState :: State
  backupTime :: int
  backupMessage :: string

record ArangoBackup =
  Status :: ArangoBackupStatus

definition downloadDelay :: int where
  "downloadDelay = Minute"

text \<open>
  Modelled from the spec: \<^verbatim>\<open>wrapUpdateStatus\<close> and \<^verbatim>\<open>updateStatusState\<close> are not among
  the sources. By section 4.4 a handler is a pure function from the old status to the new
  status and an optional error; with no update the status is re-emitted unchanged; a
  transition sets the new state and message and records the time of the transition.
  The clock \<open>now\<close> is the reading the handler run takes.
\<close>

definition updateStatusState ::
  "int \<Rightarrow> State \<Rightarrow> string \<Rightarrow> ArangoBackupStatus \<Rightarrow> ArangoBackupStatus" where
  "updateStatusState now st msg status =
     (if backupState status = st
      then status\<lparr>backupState := st, backupMessage := msg\<rparr>
      else status\<lparr>backupTime := now, backupState := st, backupMessage := msg\<rparr>)"

definition wrapUpdateStatus ::
  "ArangoBackup \<Rightarrow> (ArangoBackupStatus \<Rightarrow> ArangoBackupStatus) list
     \<Rightarrow> ArangoBackupStatus \<times> error option" where
  "wrapUpdateStatus backup update = (foldl (\<lambda>s u. u s) (Status backup) update, None)"

text \<open>\<^verbatim>\<open>stateDownloadErrorHandler\<close>; \<open>now\<close> is \<^verbatim>\<open>time.Now()\<close>.\<close>

definition stateDownloadErrorHandler ::
  "int \<Rightarrow> ArangoBackup \<Rightarrow> ArangoBackupStatus \<times> error option" where
  "stateDownloadErrorHandler now backup =
     (if backupTime (Status backup) + downloadDelay < now
      then wrapUpdateStatus backup [updateStatusState now ArangoBackupStatePending '''']
      else wrapUpdateStatus backup [])"

section \<open>Concrete inputs\<close>

text \<open>
  A stand-in for the JWT library and the certificate generator in the concrete
  evaluations. Its only tokens are those minted over the exporter's claims: a token
  verifies under the key it was signed with, and decodes to those claims as the JSON
  decoder delivers them (strings, and a list of strings as a slice of interfaces).
\<close>

definition exporterClaimsDecoded :: "(string \<times> go_value) list" where
  "exporterClaimsDecoded =
     [(''iss'', GoString ''arangodb''),
      (''server_id'', GoString ''exporter''),
      (''allowed_paths'',
         GoSlice
           [GoString ''/_admin/statistics'', GoString ''/_admin/statistics-description'',
            GoString ''/_admin/metrics''])]"

definition toyCodec :: codec where
  "toyCodec =
     \<lparr>jwtSign = (\<lambda>key claims. ''jwt-signed-with-'' @ key),
      jwtVerify =
        (\<lambda>data key.
           if data = ''jwt-signed-with-'' @ key then Inr (GoMapClaims exporterClaimsDecoded)
           else Inl (PlainError ''signature is invalid'')),
      newCA = (\<lambda>name. (''certificate of '' @ name, ''private key of '' @ name))\<rparr>"

definition owner0 :: OwnerReference where
  "owner0 =
     \<lparr>ownerAPIVersion = ''database.arangodb.com/v1'', ownerKind = ''ArangoDeployment'',
      ownerName = ''depl'', ownerUID = ''uid-1'', ownerController = Some True,
      ownerBlockOwnerDeletion = None\<rparr>"

text \<open>
  A deployment named \<open>depl\<close> with the five toggles given (authentication, metrics, TLS,
  storage encryption, sync) and fixed secret names.
\<close>

definition testSpec :: "bool \<Rightarrow> bool \<Rightarrow> bool \<Rightarrow> bool \<Rightarrow> bool \<Rightarrow> DeploymentSpec" where
  "testSpec au me se en sy =
     \<lparr>IsAuthenticated = au,
      Authentication_JWTSecretName = ''depl-jwt'',
      Metrics_IsEnabled = me,
      Metrics_JWTTokenSecretName = ''depl-exporter-jwt-token'',
      IsSecure = se,
      TLS = \<lparr>CASecretName = ''depl-ca''\<rparr>,
      RocksDB_IsEncrypted = en,
      RocksDB_Encryption_KeySecretName = ''depl-keyfile'',
      Sync_IsEnabled = sy,
      Sync_Authentication =
        \<lparr>syncJWTSecretName = ''depl-sync-jwt'', ClientCASecretName = ''depl-sync-client-ca''\<rparr>,
      Sync_Monitoring_TokenSecretName = ''depl-sync-mt'',
      Sync_TLS = \<lparr>CASecretName = ''depl-sync-ca''\<rparr>\<rparr>"

definition testResources :: "bool \<Rightarrow> bool \<Rightarrow> bool \<Rightarrow> bool \<Rightarrow> bool \<Rightarrow> Resources" where
  "testResources au me se en sy =
     \<lparr>GetSpec = testSpec au me se en sy, GetName = ''depl'', AsOwner = owner0\<rparr>"

definition plainSecret :: "string \<Rightarrow> string \<Rightarrow> string \<Rightarrow> Secret" where
  "plainSecret name field val =
     \<lparr>secretName = name, secretOwnerReferences = [], Data = [(field, val)]\<rparr>"

definition emptyWorld :: mem_world where
  "emptyWorld = \<lparr>secrets = [], interference = [], entropy = []\<rparr>"

text \<open>A store in which another controller creates the named secret right after the next read.\<close>

definition raceWorld :: "string \<Rightarrow> mem_world" where
  "raceWorld name =
     \<lparr>secrets = [(''depl-jwt-key'', plainSecret ''depl-jwt-key'' ''token'' ''s3cr3t'')],
      interference = [plainSecret name ''token'' ''theirs''],
      entropy = []\<rparr>"

text \<open>
  A store holding the signing secret and an exporter token that is signed with it and
  carries exactly the desired claims.
\<close>

definition signedWorld :: mem_world where
  "signedWorld =
     \<lparr>secrets =
        [(''depl-exporter-jwt-token'',
            plainSecret ''depl-exporter-jwt-token'' ''token'' ''jwt-signed-with-s3cr3t''),
         (''depl-jwt'', plainSecret ''depl-jwt'' ''token'' ''s3cr3t'')],
      interference = [],
      entropy = []\<rparr>"

text \<open>A store holding a key file whose data is as given.\<close>

definition keyfileWorld :: "(string \<times> string) list \<Rightarrow> mem_world" where
  "keyfileWorld d =
     \<lparr>secrets =
        [(''depl-keyfile'',
            \<lparr>secretName = ''depl-keyfile'', secretOwnerReferences = [], Data = d\<rparr>)],
      interference = [],
      entropy = []\<rparr>"

text \<open>A stand-in for the driver: every constructor succeeds and returns what it was given.\<close>

definition toyDriver ::
  "(ConnectionConfig, ConnectionConfig ClientConfig, ConnectionConfig) driver" where
  "toyDriver =
     \<lparr>NewConnection = Inr,
      NewClient = Inr,
      NewAgencyConnection = Inr,
      SetAuthentication = (\<lambda>c a. Inr c),
      NewAgency = Inr,
      CreateArangodJwtAuthorizationHeader = (\<lambda>s ident. Inr (''bearer '' @ ident @ ''.'' @ s)),
      JoinHostPort = (\<lambda>h p. h @ '':'' @ p),
      Itoa = (\<lambda>i. ''8529''),
      ArangoPort = 8529,
      CreatePodDNSName = (\<lambda>obj role ident. objName obj @ ''-'' @ role @ ''-'' @ ident),
      CreateDatabaseClientServiceDNSName = (\<lambda>obj. objName obj),
      AsRole = (\<lambda>g. ''member'')\<rparr>"

definition testDeployment :: "bool \<Rightarrow> ArangoDeployment" where
  "testDeployment au =
     \<lparr>objMeta = \<lparr>objName = ''depl'', objNamespace = ''ns''\<rparr>,
      Spec = testSpec au False False False False,
      Status_Members_Agents = [''a1'', ''a2'', ''a3'']\<rparr>"

section \<open>Facts shared by the results\<close>

lemma DeepEqual_MapClaims_exporterTokenClaims:
  "DeepEqual (GoMapClaims m) (exporterTokenClaims E) = False"
  by (simp add: DeepEqual_def exporterTokenClaims_def)

lemma assertMapClaims_Some:
  "assertMapClaims v = Some c \<Longrightarrow> \<exists>m. c = GoMapClaims m"
  by (cases v) auto

text \<open>
  The validator never answers that an existing token may stay: whatever the store holds and
  whatever the parser returns, the comparison of a \<^verbatim>\<open>jwt.MapClaims\<close> with the package's
  \<^verbatim>\<open>map[string]interface{}\<close> is false.
\<close>

lemma recreate_whenever_token_exists:
  "fst (ensureExporterTokenSecretCreateRequired E t s w) \<noteq> (False, True, None)"
  by (auto simp add: ensureExporterTokenSecretCreateRequired_def
        DeepEqual_MapClaims_exporterTokenClaims
      split: prod.splits sum.splits option.splits dest!: assertMapClaims_Some)

text \<open>Had both sides the same dynamic types, equal claims would compare equal.\<close>

lemma DeepEqual_same_types:
  "DeepEqual (GoMapClaims exporterClaimsDecoded) (GoMapClaims exporterClaimsDecoded)"
  by (simp add: DeepEqual_def exporterClaimsDecoded_def)

section \<open>Results\<close>

text \<open>
  C1. A stored exporter token whose signature verifies against the signing key and whose
  claims are the desired ones (issuer \<open>arangodb\<close>, server id \<open>exporter\<close>, the three allowed
  paths) should be left alone. Evaluated on such a store, the validator answers that the
  token must be recreated, and \<^verbatim>\<open>ensureExporterTokenSecret\<close> deletes the secret and
  creates it again (it moves to the end of the store, now with an owner reference).
\<close>

theorem exporter_token_recreated_although_claims_match:
  "jwtParse (memEnv toyCodec) ''jwt-signed-with-s3cr3t'' ''s3cr3t'' =
     Inr (GoMapClaims
            [(''iss'', GoString ''arangodb''),
             (''server_id'', GoString ''exporter''),
             (''allowed_paths'',
                GoSlice
                  [GoString ''/_admin/statistics'',
                   GoString ''/_admin/statistics-description'',
                   GoString (ArangoExporterInternalEndpoint (memEnv toyCodec))])])
   \<and> ensureExporterTokenSecretCreateRequired (memEnv toyCodec)
         ''depl-exporter-jwt-token'' ''depl-jwt'' signedWorld
       = ((True, True, None), signedWorld)
   \<and> ensureExporterTokenSecret (memEnv toyCodec) (testResources True True False False False)
         ''depl-exporter-jwt-token'' ''depl-jwt'' signedWorld
       = (None,
          \<lparr>secrets =
             [(''depl-jwt'', plainSecret ''depl-jwt'' ''token'' ''s3cr3t''),
              (''depl-exporter-jwt-token'',
                 \<lparr>secretName = ''depl-exporter-jwt-token'',
                  secretOwnerReferences = [owner0],
                  Data = [(''token'', ''jwt-signed-with-s3cr3t'')]\<rparr>)],
           interference = [], entropy = []\<rparr>)"
  by (simp add: ensureExporterTokenSecret_def ensureExporterTokenSecretCreateRequired_def
      createExporterToken_def memEnv_def toyCodec_def signedWorld_def plainSecret_def
      memGet_def memDelete_def memGetTokenSecret_def memCreateJWTFromSecret_def
      memCreateTokenSecret_def memCreate_def exporterClaimsDecoded_def DeepEqual_def
      exporterTokenClaims_def testResources_def)

text \<open>
  C2. On each of the four create paths (token secret, exporter token, server TLS CA,
  client-auth CA): when the read answers not found and the create that follows fails with
  an error \<open>e\<close>, the operation returns nil if \<open>e\<close> is AlreadyExists and the masked \<open>e\<close>
  otherwise.
\<close>

theorem already_exists_on_create_is_success:
  "(Get E name w = (Inl gerr, wa) \<and> IsNotFound gerr \<and> randRead E 32 wa = (bs, wb) \<and>
    CreateTokenSecret E name (hexEncodeToString (take 32 (bs @ replicate 32 0))) (AsOwner r) wb
      = (Some e, wc)
    \<longrightarrow> ensureTokenSecret E r name w
          = (if IsAlreadyExists e then None else Some (maskAny e), wc))
   \<and> (Get E name w = (Inl gerr, wa) \<and> IsNotFound gerr \<and>
      CreateJWTFromSecret E name signingName (exporterTokenClaims E) (AsOwner r) wa
        = (Some e, wc)
      \<longrightarrow> ensureExporterTokenSecret E r name signingName w
            = (if IsAlreadyExists e then None else Some (maskAny e), wc))
   \<and> (Get E (CASecretName tls) w = (Inl gerr, wa) \<and> IsNotFound gerr \<and>
      createTLSCACertificate E tls (GetName r) (AsOwner r) wa = (Some e, wc)
      \<longrightarrow> ensureTLSCACertificateSecret E r tls w
            = (if IsAlreadyExists e then None else Some (maskAny e), wc))
   \<and> (Get E (ClientCASecretName sa) w = (Inl gerr, wa) \<and> IsNotFound gerr \<and>
      createClientAuthCACertificate E sa (GetName r) (AsOwner r) wa = (Some e, wc)
      \<longrightarrow> ensureClientAuthCACertificateSecret E r sa w
            = (if IsAlreadyExists e then None else Some (maskAny e), wc))"
  by (simp add: ensureTokenSecret_def ensureExporterTokenSecret_def
      ensureExporterTokenSecretCreateRequired_def createExporterToken_def
      ensureTLSCACertificateSecret_def ensureClientAuthCACertificateSecret_def)

theorem already_exists_on_create_is_success_witness:
  "ensureTokenSecret (memEnv toyCodec) (testResources True True True False True)
       ''depl-jwt'' (raceWorld ''depl-jwt'')
     = (None, snd (memGet ''depl-jwt'' (raceWorld ''depl-jwt'')))
   \<and> ensureExporterTokenSecret (memEnv toyCodec) (testResources True True True False True)
       ''depl-exporter-jwt-token'' ''depl-jwt-key'' (raceWorld ''depl-exporter-jwt-token'')
     = (None, snd (memGet ''x'' (raceWorld ''depl-exporter-jwt-token'')))
   \<and> ensureTLSCACertificateSecret (memEnv toyCodec) (testResources True True True False True)
       \<lparr>CASecretName = ''depl-ca''\<rparr> (raceWorld ''depl-ca'')
     = (None, snd (memGet ''x'' (raceWorld ''depl-ca'')))
   \<and> ensureClientAuthCACertificateSecret (memEnv toyCodec)
       (testResources True True True False True)
       \<lparr>syncJWTSecretName = ''depl-sync-jwt'', ClientCASecretName = ''depl-sync-client-ca''\<rparr>
       (raceWorld ''depl-sync-client-ca'')
     = (None, snd (memGet ''x'' (raceWorld ''depl-sync-client-ca'')))"
proof -
  let ?M = "memEnv toyCodec"
  let ?r = "testResources True True True False True"
  let ?ae = "StatusError StatusReasonAlreadyExists"
  let ?nf = "StatusError StatusReasonNotFound"
  let ?sa = "\<lparr>syncJWTSecretName = ''depl-sync-jwt'', ClientCASecretName = ''depl-sync-client-ca''\<rparr>"
  have nf: "IsNotFound ?nf" and ae: "IsAlreadyExists ?ae"
    by (simp_all add: IsNotFound_def IsAlreadyExists_def)
  have a: "ensureTokenSecret ?M ?r ''depl-jwt'' (raceWorld ''depl-jwt'')
             = (None, snd (memGet ''depl-jwt'' (raceWorld ''depl-jwt'')))"
    using already_exists_on_create_is_success
      [where E = ?M and r = ?r and name = "''depl-jwt''" and w = "raceWorld ''depl-jwt''"
         and gerr = ?nf and wa = "snd (memGet ''depl-jwt'' (raceWorld ''depl-jwt''))"
         and bs = "[]" and wb = "snd (memGet ''depl-jwt'' (raceWorld ''depl-jwt''))"
         and e = ?ae and wc = "snd (memGet ''depl-jwt'' (raceWorld ''depl-jwt''))",
       THEN conjunct1] nf ae
    by (simp add: memEnv_def memGet_def raceWorld_def memInsert_def plainSecret_def
        memRandRead_def memCreateTokenSecret_def memCreate_def)
  have b: "ensureExporterTokenSecret ?M ?r ''depl-exporter-jwt-token'' ''depl-jwt-key''
             (raceWorld ''depl-exporter-jwt-token'')
           = (None, snd (memGet ''x'' (raceWorld ''depl-exporter-jwt-token'')))"
    using already_exists_on_create_is_success
      [where E = ?M and r = ?r and name = "''depl-exporter-jwt-token''"
         and signingName = "''depl-jwt-key''"
         and w = "raceWorld ''depl-exporter-jwt-token''"
         and gerr = ?nf and wa = "snd (memGet ''x'' (raceWorld ''depl-exporter-jwt-token''))"
         and e = ?ae and wc = "snd (memGet ''x'' (raceWorld ''depl-exporter-jwt-token''))",
       THEN conjunct2, THEN conjunct1] nf ae
    by (simp add: memEnv_def memGet_def raceWorld_def memInsert_def plainSecret_def
        memCreateJWTFromSecret_def memGetTokenSecret_def memCreateTokenSecret_def
        memCreate_def)
  have c: "ensureTLSCACertificateSecret ?M ?r \<lparr>CASecretName = ''depl-ca''\<rparr>
             (raceWorld ''depl-ca'')
           = (None, snd (memGet ''x'' (raceWorld ''depl-ca'')))"
    using already_exists_on_create_is_success
      [where E = ?M and r = ?r and tls = "\<lparr>CASecretName = ''depl-ca''\<rparr>"
         and w = "raceWorld ''depl-ca''"
         and gerr = ?nf and wa = "snd (memGet ''x'' (raceWorld ''depl-ca''))"
         and e = ?ae and wc = "snd (memGet ''x'' (raceWorld ''depl-ca''))",
       THEN conjunct2, THEN conjunct2, THEN conjunct1] nf ae
    by (simp add: memEnv_def memGet_def raceWorld_def memInsert_def plainSecret_def
        memCreateCA_def memCreate_def)
  have d: "ensureClientAuthCACertificateSecret ?M ?r ?sa (raceWorld ''depl-sync-client-ca'')
           = (None, snd (memGet ''x'' (raceWorld ''depl-sync-client-ca'')))"
    using already_exists_on_create_is_success
      [where E = ?M and r = ?r and sa = ?sa
         and w = "raceWorld ''depl-sync-client-ca''"
         and gerr = ?nf and wa = "snd (memGet ''x'' (raceWorld ''depl-sync-client-ca''))"
         and e = ?ae and wc = "snd (memGet ''x'' (raceWorld ''depl-sync-client-ca''))",
       THEN conjunct2, THEN conjunct2, THEN conjunct2] nf ae
    by (simp add: memEnv_def memGet_def raceWorld_def memInsert_def plainSecret_def
        memCreateCA_def memCreate_def)
  from a b c d show ?thesis by simp
qed

text \<open>
  C3 (as amended). A key file secret that exists but has no data, or lacks the encryption
  key field, makes \<^verbatim>\<open>ensureEncryptionKeyfolderSecret\<close> fail with the plain error
  \<open>Missing key in secret\<close>, which is no store error. A read that fails (the secret is
  missing, or the store fails) makes it fail with the store's own error, wrapped: the
  result is a store error exactly when the read's error is one, and is NotFound when the
  secret is missing. In all these cases the world returned is the one right after the
  single read: no keyfolder secret is created. On the in-memory store without
  interference, every failure leaves the secrets as they were.
\<close>

theorem keyfolder_source_failures:
  "(Get E keyfileName w = (Inr keyfile, wa) \<and>
      (Data keyfile = [] \<or> map_of (Data keyfile) (SecretEncryptionKey E) = None)
    \<longrightarrow> ensureEncryptionKeyfolderSecret E r keyfileName name w
          = (Some (PlainError ''Missing key in secret''), wa)
        \<and> isStoreError (PlainError ''Missing key in secret'') = False)
   \<and> (Get E keyfileName w = (Inl err, wa)
      \<longrightarrow> ensureEncryptionKeyfolderSecret E r keyfileName name w
            = (Some (Wrapf err ''Unable to find original secret''), wa)
          \<and> isStoreError (Wrapf err ''Unable to find original secret'') = isStoreError err
          \<and> IsNotFound (Wrapf err ''Unable to find original secret'') = IsNotFound err)
   \<and> (interference mw = [] \<and>
        fst (ensureEncryptionKeyfolderSecret (memEnv c) r keyfileName name mw) = Some err'
      \<longrightarrow> snd (ensureEncryptionKeyfolderSecret (memEnv c) r keyfileName name mw) = mw)"
proof (intro conjI impI)
  assume "Get E keyfileName w = (Inr keyfile, wa) \<and>
      (Data keyfile = [] \<or> map_of (Data keyfile) (SecretEncryptionKey E) = None)"
  then show "ensureEncryptionKeyfolderSecret E r keyfileName name w
          = (Some (PlainError ''Missing key in secret''), wa)"
    by (auto simp add: ensureEncryptionKeyfolderSecret_def)
next
  show "isStoreError (PlainError ''Missing key in secret'') = False"
    by (simp add: isStoreError_def)
next
  assume "Get E keyfileName w = (Inl err, wa)"
  then show "ensureEncryptionKeyfolderSecret E r keyfileName name w
            = (Some (Wrapf err ''Unable to find original secret''), wa)"
    by (simp add: ensureEncryptionKeyfolderSecret_def)
next
  show "isStoreError (Wrapf err ''Unable to find original secret'') = isStoreError err"
    by (simp add: isStoreError_def)
next
  show "IsNotFound (Wrapf err ''Unable to find original secret'') = IsNotFound err"
    by (simp add: IsNotFound_def)
next
  assume "interference mw = [] \<and>
        fst (ensureEncryptionKeyfolderSecret (memEnv c) r keyfileName name mw) = Some err'"
  then show "snd (ensureEncryptionKeyfolderSecret (memEnv c) r keyfileName name mw) = mw"
    by (auto simp add: ensureEncryptionKeyfolderSecret_def memEnv_def memGet_def
          memAppendKeyfileToKeyfolder_def memCreate_def IsNotFound_def
        split: option.splits if_splits)
qed

theorem keyfolder_source_failures_witness:
  "ensureEncryptionKeyfolderSecret (memEnv toyCodec) (testResources True False False True False)
       ''depl-keyfile'' ''depl-encryption-folder'' (keyfileWorld [])
     = (Some (PlainError ''Missing key in secret''), keyfileWorld [])
   \<and> ensureEncryptionKeyfolderSecret (memEnv toyCodec)
       (testResources True False False True False)
       ''depl-keyfile'' ''depl-encryption-folder'' (keyfileWorld [(''other'', ''x'')])
     = (Some (PlainError ''Missing key in secret''), keyfileWorld [(''other'', ''x'')])
   \<and> ensureEncryptionKeyfolderSecret (memEnv toyCodec)
       (testResources True False False True False)
       ''depl-keyfile'' ''depl-encryption-folder'' emptyWorld
     = (Some (Wrapf (StatusError StatusReasonNotFound) ''Unable to find original secret''),
        emptyWorld)
   \<and> snd (ensureEncryptionKeyfolderSecret (memEnv toyCodec)
       (testResources True False False True False)
       ''depl-keyfile'' ''depl-encryption-folder'' emptyWorld) = emptyWorld"
proof -
  let ?M = "memEnv toyCodec"
  let ?r = "testResources True False False True False"
  let ?kf = "\<lambda>d. \<lparr>secretName = ''depl-keyfile'', secretOwnerReferences = [], Data = d\<rparr>"
  note T = keyfolder_source_failures
  have a: "ensureEncryptionKeyfolderSecret ?M ?r ''depl-keyfile'' ''depl-encryption-folder''
             (keyfileWorld [])
           = (Some (PlainError ''Missing key in secret''), keyfileWorld [])"
    using T [where E = ?M and keyfileName = "''depl-keyfile''" and w = "keyfileWorld []"
               and keyfile = "?kf []" and wa = "keyfileWorld []" and r = ?r
               and name = "''depl-encryption-folder''", THEN conjunct1]
    by (simp add: memEnv_def memGet_def keyfileWorld_def)
  have b: "ensureEncryptionKeyfolderSecret ?M ?r ''depl-keyfile'' ''depl-encryption-folder''
             (keyfileWorld [(''other'', ''x'')])
           = (Some (PlainError ''Missing key in secret''), keyfileWorld [(''other'', ''x'')])"
    using T [where E = ?M and keyfileName = "''depl-keyfile''"
               and w = "keyfileWorld [(''other'', ''x'')]"
               and keyfile = "?kf [(''other'', ''x'')]"
               and wa = "keyfileWorld [(''other'', ''x'')]" and r = ?r
               and name = "''depl-encryption-folder''", THEN conjunct1]
    by (simp add: memEnv_def memGet_def keyfileWorld_def)
  have c: "ensureEncryptionKeyfolderSecret ?M ?r ''depl-keyfile'' ''depl-encryption-folder''
             emptyWorld
           = (Some (Wrapf (StatusError StatusReasonNotFound)
                ''Unable to find original secret''), emptyWorld)"
    using T [where E = ?M and keyfileName = "''depl-keyfile''" and w = emptyWorld
               and err = "StatusError StatusReasonNotFound" and wa = emptyWorld and r = ?r
               and name = "''depl-encryption-folder''", THEN conjunct2, THEN conjunct1]
    by (simp add: memEnv_def memGet_def emptyWorld_def)
  have d: "snd (ensureEncryptionKeyfolderSecret ?M ?r ''depl-keyfile''
             ''depl-encryption-folder'' emptyWorld) = emptyWorld"
    using T [where c = toyCodec and keyfileName = "''depl-keyfile''" and mw = emptyWorld
               and err' = "Wrapf (StatusError StatusReasonNotFound)
                             ''Unable to find original secret''"
               and r = ?r and name = "''depl-encryption-folder''",
             THEN conjunct2, THEN conjunct2] c
    by (simp add: emptyWorld_def)
  from a b c d show ?thesis by simp
qed

text \<open>
  C3 as stated fails when the source secret is missing: the error returned is the store's
  NotFound under a wrapper, a store error by the package's own test.
\<close>

theorem keyfolder_missing_source_is_store_error:
  "fst (ensureEncryptionKeyfolderSecret (memEnv toyCodec)
          (testResources True False False True False)
          ''depl-keyfile'' ''depl-encryption-folder'' emptyWorld)
     = Some (Wrapf (StatusError StatusReasonNotFound) ''Unable to find original secret'')
   \<and> isStoreError (Wrapf (StatusError StatusReasonNotFound) ''Unable to find original secret'')
   \<and> IsNotFound (Wrapf (StatusError StatusReasonNotFound) ''Unable to find original secret'')"
  by (simp add: ensureEncryptionKeyfolderSecret_def memEnv_def memGet_def emptyWorld_def
      isStoreError_def IsNotFound_def)

text \<open>
  C7. Where the named token secret exists, \<^verbatim>\<open>ensureTokenSecret\<close> returns nil and the
  world is the one right after its single read: no create, update or delete is performed.
  On the in-memory store without interference the operation succeeds, and running it
  again on the state it left returns nil and leaves that state as it is.
\<close>

theorem ensure_token_idempotent:
  "(Get E name w = (Inr s, wa) \<longrightarrow> ensureTokenSecret E r name w = (None, wa))
   \<and> (interference mw = []
      \<longrightarrow> fst (ensureTokenSecret (memEnv c) r name mw) = None
        \<and> ensureTokenSecret (memEnv c) r name (snd (ensureTokenSecret (memEnv c) r name mw))
            = (None, snd (ensureTokenSecret (memEnv c) r name mw)))"
  by (auto simp add: ensureTokenSecret_def memEnv_def memGet_def memCreateTokenSecret_def
        memCreate_def memRandRead_def IsNotFound_def Let_def
      split: option.splits)

theorem ensure_token_idempotent_witness:
  "ensureTokenSecret (memEnv toyCodec) (testResources True False False False False)
       ''depl-jwt'' signedWorld = (None, signedWorld)
   \<and> fst (ensureTokenSecret (memEnv toyCodec) (testResources True False False False False)
       ''depl-jwt'' emptyWorld) = None
   \<and> ensureTokenSecret (memEnv toyCodec) (testResources True False False False False)
       ''depl-jwt''
       (snd (ensureTokenSecret (memEnv toyCodec) (testResources True False False False False)
          ''depl-jwt'' emptyWorld))
     = (None,
        snd (ensureTokenSecret (memEnv toyCodec) (testResources True False False False False)
          ''depl-jwt'' emptyWorld))"
proof -
  let ?M = "memEnv toyCodec"
  let ?r = "testResources True False False False False"
  have a: "ensureTokenSecret ?M ?r ''depl-jwt'' signedWorld = (None, signedWorld)"
    using ensure_token_idempotent
      [where E = ?M and name = "''depl-jwt''" and w = signedWorld
         and s = "plainSecret ''depl-jwt'' ''token'' ''s3cr3t''" and wa = signedWorld
         and r = ?r, THEN conjunct1]
    by (simp add: memEnv_def memGet_def signedWorld_def)
  have b: "fst (ensureTokenSecret ?M ?r ''depl-jwt'' emptyWorld) = None
     \<and> ensureTokenSecret ?M ?r ''depl-jwt'' (snd (ensureTokenSecret ?M ?r ''depl-jwt'' emptyWorld))
       = (None, snd (ensureTokenSecret ?M ?r ''depl-jwt'' emptyWorld))"
    using ensure_token_idempotent
      [where c = toyCodec and name = "''depl-jwt''" and mw = emptyWorld and r = ?r,
       THEN conjunct2]
    by (simp add: emptyWorld_def)
  from a b show ?thesis by simp
qed

text \<open>
  C9. With authentication, TLS, storage encryption and sync all disabled,
  \<^verbatim>\<open>EnsureSecrets\<close> returns nil and hands back the world and the counter it was given:
  no call reaches the store, whatever the environment.
\<close>

theorem nothing_enabled_nothing_touched:
  assumes "\<not> IsAuthenticated (GetSpec r)" and "\<not> IsSecure (GetSpec r)"
    and "\<not> RocksDB_IsEncrypted (GetSpec r)" and "\<not> Sync_IsEnabled (GetSpec r)"
  shows "EnsureSecrets E r (w, n) = (None, (w, n))"
  using assms by (simp add: EnsureSecrets_def andThen_def whenE_def Let_def)

theorem nothing_enabled_nothing_touched_witness:
  "\<not> IsAuthenticated (GetSpec (testResources False True False False False))
   \<and> \<not> IsSecure (GetSpec (testResources False True False False False))
   \<and> \<not> RocksDB_IsEncrypted (GetSpec (testResources False True False False False))
   \<and> \<not> Sync_IsEnabled (GetSpec (testResources False True False False False))
   \<and> EnsureSecrets (memEnv toyCodec) (testResources False True False False False)
        (raceWorld ''depl-jwt'', 0)
      = (None, (raceWorld ''depl-jwt'', 0))"
proof -
  have h: "\<not> IsAuthenticated (GetSpec (testResources False True False False False))"
    "\<not> IsSecure (GetSpec (testResources False True False False False))"
    "\<not> RocksDB_IsEncrypted (GetSpec (testResources False True False False False))"
    "\<not> Sync_IsEnabled (GetSpec (testResources False True False False False))"
    by (simp_all add: testResources_def testSpec_def)
  from h nothing_enabled_nothing_touched [OF h, of "memEnv toyCodec" "raceWorld ''depl-jwt''" 0]
  show ?thesis by simp
qed

text \<open>
  C4 (as amended). With authentication enabled and TLS, storage encryption and sync
  disabled, a pass of \<^verbatim>\<open>EnsureSecrets\<close> is exactly: count one inspection, ensure the
  primary token secret, and, when metrics is enabled and that succeeded, ensure the
  exporter token. Nothing else is called, and an error of either step is returned masked.
\<close>

theorem auth_only_ensures_token_then_exporter:
  assumes "IsAuthenticated (GetSpec r)" and "\<not> IsSecure (GetSpec r)"
    and "\<not> RocksDB_IsEncrypted (GetSpec r)" and "\<not> Sync_IsEnabled (GetSpec r)"
  shows "EnsureSecrets E r (w, n) =
     (case ensureTokenSecret E r (Authentication_JWTSecretName (GetSpec r)) w of
        (Some err, wa) \<Rightarrow> (Some (maskAny err), (wa, Suc n))
      | (None, wa) \<Rightarrow>
          if Metrics_IsEnabled (GetSpec r) then
            (case ensureExporterTokenSecret E r (Metrics_JWTTokenSecretName (GetSpec r))
                    (Authentication_JWTSecretName (GetSpec r)) wa of
               (Some err, wb) \<Rightarrow> (Some (maskAny err), (wb, Suc n))
             | (None, wb) \<Rightarrow> (None, (wb, Suc n)))
          else (None, (wa, Suc n)))"
  using assms
  by (simp add: EnsureSecrets_def andThen_def whenE_def masked_def Inc_def Let_def
      split: prod.splits option.splits)

theorem auth_only_ensures_token_then_exporter_witness:
  "map fst (secrets (fst (snd (EnsureSecrets (memEnv toyCodec)
       (testResources True False False False False) (emptyWorld, 0))))) = [''depl-jwt'']
   \<and> fst (EnsureSecrets (memEnv toyCodec)
       (testResources True False False False False) (emptyWorld, 0)) = None
   \<and> map fst (secrets (fst (snd (EnsureSecrets (memEnv toyCodec)
       (testResources True True False False False) (emptyWorld, 0)))))
      = [''depl-jwt'', ''depl-exporter-jwt-token'']
   \<and> fst (EnsureSecrets (memEnv toyCodec)
       (testResources True True False False False) (emptyWorld, 0)) = None"
proof -
  let ?M = "memEnv toyCodec"
  have a: "IsAuthenticated (GetSpec (testResources True me False False False))"
    "\<not> IsSecure (GetSpec (testResources True me False False False))"
    "\<not> RocksDB_IsEncrypted (GetSpec (testResources True me False False False))"
    "\<not> Sync_IsEnabled (GetSpec (testResources True me False False False))" for me
    by (simp_all add: testResources_def testSpec_def)
  have t: "ensureTokenSecret ?M (testResources True me False False False) ''depl-jwt'' emptyWorld
       = (None,
          \<lparr>secrets =
             [(''depl-jwt'',
               \<lparr>secretName = ''depl-jwt'', secretOwnerReferences = [owner0],
                Data = [(''token'', hexEncodeToString (replicate 32 0))]\<rparr>)],
           interference = [], entropy = []\<rparr>)" for me
    by (simp add: ensureTokenSecret_def memEnv_def memGet_def emptyWorld_def IsNotFound_def
        memRandRead_def memCreateTokenSecret_def memCreate_def testResources_def)
  have n: "Authentication_JWTSecretName (GetSpec (testResources True me False False False))
       = ''depl-jwt''"
    "Metrics_JWTTokenSecretName (GetSpec (testResources True me False False False))
       = ''depl-exporter-jwt-token''"
    "Metrics_IsEnabled (GetSpec (testResources True me False False False)) = me" for me
    by (simp_all add: testResources_def testSpec_def)
  have x: "ensureExporterTokenSecret ?M (testResources True True False False False)
        ''depl-exporter-jwt-token'' ''depl-jwt''
          \<lparr>secrets =
             [(''depl-jwt'',
               \<lparr>secretName = ''depl-jwt'', secretOwnerReferences = [owner0],
                Data = [(''token'', hexEncodeToString (replicate 32 0))]\<rparr>)],
           interference = [], entropy = []\<rparr>
       = (None,
          \<lparr>secrets =
             [(''depl-jwt'',
               \<lparr>secretName = ''depl-jwt'', secretOwnerReferences = [owner0],
                Data = [(''token'', hexEncodeToString (replicate 32 0))]\<rparr>),
              (''depl-exporter-jwt-token'',
               \<lparr>secretName = ''depl-exporter-jwt-token'', secretOwnerReferences = [owner0],
                Data = [(''token'',
                  ''jwt-signed-with-'' @ hexEncodeToString (replicate 32 0))]\<rparr>)],
           interference = [], entropy = []\<rparr>)"
    by (simp add: ensureExporterTokenSecret_def ensureExporterTokenSecretCreateRequired_def
        createExporterToken_def memEnv_def memGet_def IsNotFound_def
        memCreateJWTFromSecret_def memGetTokenSecret_def memCreateTokenSecret_def
        memCreate_def toyCodec_def testResources_def)
  have off: "EnsureSecrets ?M (testResources True False False False False) (emptyWorld, 0)
       = (None,
          (\<lparr>secrets =
             [(''depl-jwt'',
               \<lparr>secretName = ''depl-jwt'', secretOwnerReferences = [owner0],
                Data = [(''token'', hexEncodeToString (replicate 32 0))]\<rparr>)],
           interference = [], entropy = []\<rparr>, Suc 0))"
    using auth_only_ensures_token_then_exporter [OF a [of False], of ?M emptyWorld 0]
    by (simp add: n t)
  have on: "EnsureSecrets ?M (testResources True True False False False) (emptyWorld, 0)
       = (None,
          (\<lparr>secrets =
             [(''depl-jwt'',
               \<lparr>secretName = ''depl-jwt'', secretOwnerReferences = [owner0],
                Data = [(''token'', hexEncodeToString (replicate 32 0))]\<rparr>),
              (''depl-exporter-jwt-token'',
               \<lparr>secretName = ''depl-exporter-jwt-token'', secretOwnerReferences = [owner0],
                Data = [(''token'',
                  ''jwt-signed-with-'' @ hexEncodeToString (replicate 32 0))]\<rparr>)],
           interference = [], entropy = []\<rparr>, Suc 0))"
    using auth_only_ensures_token_then_exporter [OF a [of True], of ?M emptyWorld 0]
    by (simp add: n t x)
  show ?thesis by (simp add: off on)
qed

text \<open>
  C4 as stated leaves storage encryption open. With authentication and storage encryption
  enabled and TLS, metrics and sync disabled, a pass over a store holding the key file
  produces two secrets: the primary token and the keyfolder.
\<close>

theorem auth_with_encryption_ensures_keyfolder_too:
  "IsAuthenticated (GetSpec (testResources True False False True False))
   \<and> \<not> IsSecure (GetSpec (testResources True False False True False))
   \<and> \<not> Metrics_IsEnabled (GetSpec (testResources True False False True False))
   \<and> \<not> Sync_IsEnabled (GetSpec (testResources True False False True False))
   \<and> fst (EnsureSecrets (memEnv toyCodec) (testResources True False False True False)
        (keyfileWorld [(''key'', ''k'')], 0)) = None
   \<and> map fst (secrets (fst (snd (EnsureSecrets (memEnv toyCodec)
        (testResources True False False True False) (keyfileWorld [(''key'', ''k'')], 0)))))
      = [''depl-keyfile'', ''depl-jwt'', ''depl-encryption-folder'']"
  by (simp add: EnsureSecrets_def andThen_def whenE_def masked_def Inc_def Let_def
      testResources_def testSpec_def keyfileWorld_def
      ensureTokenSecret_def ensureEncryptionKeyfolderSecret_def
      memEnv_def memGet_def IsNotFound_def memRandRead_def memCreateTokenSecret_def
      memCreate_def memAppendKeyfileToKeyfolder_def)

text \<open>
  C6. A backup in state DownloadError whose last transition was at \<open>T\<close>: run
  at a time of at most \<open>T\<close> plus 60 seconds, the handler returns the status as it is and no
  error; run later than that, it returns state Pending with the transition time set to
  the time of the run (which differs from \<open>T\<close>) and an empty message, and no error.
\<close>

theorem download_error_cooldown:
  assumes "backupState (Status backup) = ArangoBackupStateDownloadError"
  shows "(now \<le> backupTime (Status backup) + 60 * 1000000000
          \<longrightarrow> stateDownloadErrorHandler now backup = (Status backup, None))
       \<and> (backupTime (Status backup) + 60 * 1000000000 < now
          \<longrightarrow> stateDownloadErrorHandler now backup
                = ((Status backup)
                     \<lparr>backupTime := now, backupState := ArangoBackupStatePending,
                      backupMessage := ''''\<rparr>, None)
              \<and> backupTime (fst (stateDownloadErrorHandler now backup))
                  \<noteq> backupTime (Status backup))"
  using assms
  by (simp add: stateDownloadErrorHandler_def wrapUpdateStatus_def updateStatusState_def
      downloadDelay_def Minute_def Second_def Millisecond_def)

theorem download_error_cooldown_witness:
  "stateDownloadErrorHandler (30 * 1000000000)
      \<lparr>Status = \<lparr>backupState = ArangoBackupStateDownloadError, backupTime = 0,
                 backupMessage = ''download failed''\<rparr>\<rparr>
     = (\<lparr>backupState = ArangoBackupStateDownloadError, backupTime = 0,
         backupMessage = ''download failed''\<rparr>, None)
   \<and> stateDownloadErrorHandler (61 * 1000000000)
      \<lparr>Status = \<lparr>backupState = ArangoBackupStateDownloadError, backupTime = 0,
                 backupMessage = ''download failed''\<rparr>\<rparr>
     = (\<lparr>backupState = ArangoBackupStatePending, backupTime = 61 * 1000000000,
         backupMessage = ''''\<rparr>, None)"
proof -
  let ?b = "\<lparr>Status = \<lparr>backupState = ArangoBackupStateDownloadError, backupTime = 0,
                 backupMessage = ''download failed''\<rparr>\<rparr>"
  have h: "backupState (Status ?b) = ArangoBackupStateDownloadError" by simp
  from download_error_cooldown [OF h, of "30 * 1000000000"]
    download_error_cooldown [OF h, of "61 * 1000000000"]
  show ?thesis by simp
qed

text \<open>
  The authentication step of a build, and what each build does with its answer.
\<close>

lemma authentication_disabled_required:
  "\<not> IsAuthenticated (Spec obj) \<Longrightarrow> requireAuthenticationKey ctx \<Longrightarrow>
   \<exists>e. createArangodClientAuthentication L ctx cli (Some obj) w = (Inl e, w)"
  by (simp add: createArangodClientAuthentication_def authenticationNotEnabled_def)

lemma authentication_none:
  "(\<not> IsAuthenticated (Spec obj) \<and> \<not> requireAuthenticationKey ctx) \<or>
     (IsAuthenticated (Spec obj) \<and> skipAuthenticationKey ctx) \<Longrightarrow>
   createArangodClientAuthentication L ctx cli (Some obj) w = (Inr None, w)"
  by (auto simp add: createArangodClientAuthentication_def authenticationNotEnabled_def)

lemma authentication_read:
  "IsAuthenticated (Spec obj) \<Longrightarrow> \<not> skipAuthenticationKey ctx \<Longrightarrow>
   GetTokenSecret (k (objNamespace (objMeta obj)))
     (Authentication_JWTSecretName (Spec obj)) w = (res, wa) \<Longrightarrow>
   createArangodClientAuthentication L ctx (Some k) (Some obj) w
     = (case res of
          Inl err \<Rightarrow> Inl (maskAny err)
        | Inr s \<Rightarrow>
            (case CreateArangodJwtAuthorizationHeader L s ''kube-arangodb'' of
               Inl err \<Rightarrow> Inl (maskAny err)
             | Inr jwt \<Rightarrow> Inr (Some (RawAuthentication jwt))), wa)"
  by (simp add: createArangodClientAuthentication_def split: sum.splits)

lemma config_total:
  "\<exists>cfg. createArangodHTTPConfigForDNSNames L apiObject dnsNames short = Inr cfg"
  by (simp add: createArangodHTTPConfigForDNSNames_def Let_def)

lemma dns_build_fails:
  assumes "createArangodClientAuthentication L ctx cli apiObject w = (Inl e, wa)"
  shows "isl (fst (createArangodClientForDNSName L ctx cli apiObject dnsName short w))"
proof -
  obtain cfg where c: "createArangodHTTPConfigForDNSNames L apiObject [dnsName] short = Inr cfg"
    using config_total by blast
  show ?thesis
  proof (cases "NewConnection L cfg")
    case (Inl a)
    then show ?thesis using c by (simp add: createArangodClientForDNSName_def)
  next
    case (Inr conn)
    then show ?thesis using c assms by (simp add: createArangodClientForDNSName_def)
  qed
qed

lemma masking_isl:
  "isl (fst res) \<Longrightarrow> isl (fst (masking res))"
  by (cases res) (auto simp add: masking_def split: sum.splits)


lemma agency_build_fails:
  assumes "createArangodClientAuthentication L ctx cli (Some obj) w = (Inl e, wa)"
  shows "isl (fst (CreateArangodAgencyClient L ctx cli obj w))"
proof -
  let ?names = "map (\<lambda>m. CreatePodDNSName L (objMeta obj) (AsRole L ServerGroupAgents) m)
                  (Status_Members_Agents obj)"
  obtain cfg where c: "createArangodHTTPConfigForDNSNames L (Some obj) ?names False = Inr cfg"
    using config_total by blast
  show ?thesis
  proof (cases "NewAgencyConnection L cfg")
    case (Inl a)
    then show ?thesis using c by (simp add: CreateArangodAgencyClient_def)
  next
    case (Inr conn)
    then show ?thesis using c assms by (simp add: CreateArangodAgencyClient_def)
  qed
qed

lemma build_fails_when_authentication_fails:
  assumes "createArangodClientAuthentication L ctx cli (Some obj) w = (Inl e, wa)"
  shows "isl (fst (createArangodClientForDNSName L ctx cli (Some obj) dnsName short w))
    \<and> isl (fst (CreateArangodClient L ctx cli obj grp ident w))
    \<and> isl (fst (CreateArangodDatabaseClient L ctx cli obj short w))
    \<and> isl (fst (CreateArangodAgencyClient L ctx cli obj w))"
  using dns_build_fails [OF assms] agency_build_fails [OF assms]
  by (simp add: CreateArangodClient_def CreateArangodDatabaseClient_def masking_isl)

lemma build_with_authentication:
  assumes "createArangodClientAuthentication L ctx cli (Some obj) w = (Inr auth, wa)"
    and "createArangodHTTPConfigForDNSNames L (Some obj) [dnsName] short = Inr cfg"
    and "NewConnection L cfg = Inr conn"
  shows "createArangodClientForDNSName L ctx cli (Some obj) dnsName short w
     = ((case NewClient L \<lparr>Connection = conn, ClientAuthentication = auth\<rparr> of
           Inl e \<Rightarrow> Inl (maskAny e)
         | Inr c \<Rightarrow> Inr c), wa)"
proof (cases "NewClient L \<lparr>Connection = conn, ClientAuthentication = auth\<rparr>")
  case (Inl a)
  then show ?thesis using assms by (simp add: createArangodClientForDNSName_def)
next
  case (Inr b)
  then show ?thesis using assms by (simp add: createArangodClientForDNSName_def)
qed

lemma agency_build_without_credential:
  assumes "createArangodClientAuthentication L ctx cli (Some obj) w = (Inr None, wa)"
    and "createArangodHTTPConfigForDNSNames L (Some obj)
           (map (\<lambda>m. CreatePodDNSName L (objMeta obj) (AsRole L ServerGroupAgents) m)
              (Status_Members_Agents obj)) False = Inr cfg"
    and "NewAgencyConnection L cfg = Inr conn"
  shows "CreateArangodAgencyClient L ctx cli obj w
     = ((case NewAgency L conn of Inl e \<Rightarrow> Inl (maskAny e) | Inr a \<Rightarrow> Inr a), wa)"
proof (cases "NewAgency L conn")
  case (Inl a)
  then show ?thesis using assms by (simp add: CreateArangodAgencyClient_def)
next
  case (Inr b)
  then show ?thesis using assms by (simp add: CreateArangodAgencyClient_def)
qed

lemma agency_build_with_credential:
  assumes "createArangodClientAuthentication L ctx cli (Some obj) w = (Inr (Some cred), wa)"
    and "createArangodHTTPConfigForDNSNames L (Some obj)
           (map (\<lambda>m. CreatePodDNSName L (objMeta obj) (AsRole L ServerGroupAgents) m)
              (Status_Members_Agents obj)) False = Inr cfg"
    and "NewAgencyConnection L cfg = Inr conn"
  shows "CreateArangodAgencyClient L ctx cli obj w
     = ((case SetAuthentication L conn cred of
           Inl e \<Rightarrow> Inl (maskAny e)
         | Inr conn' \<Rightarrow>
             (case NewAgency L conn' of Inl e \<Rightarrow> Inl (maskAny e) | Inr a \<Rightarrow> Inr a)), wa)"
proof (cases "SetAuthentication L conn cred")
  case (Inl a)
  then show ?thesis using assms by (simp add: CreateArangodAgencyClient_def)
next
  case (Inr conn')
  then show ?thesis using assms
    by (cases "NewAgency L conn'") (simp_all add: CreateArangodAgencyClient_def)
qed

text \<open>
  C5. The authentication step \<^verbatim>\<open>createArangodClientAuthentication\<close> for a deployment \<open>obj\<close>:
  with authentication disabled, the answer is no credential, unless the context carries
  the require-authentication marker, and then an error; with authentication enabled and
  the skip-authentication marker, no credential; with authentication enabled and no skip
  marker, the primary token secret is read from the deployment's namespace: a failed read
  is returned masked, and a token \<open>s\<close> gives the raw credential minted from \<open>s\<close> for
  \<open>kube-arangodb\<close> (or the masked error of the minting).

  Every client build follows that answer. \<^verbatim>\<open>CreateArangodClient\<close> and
  \<^verbatim>\<open>CreateArangodDatabaseClient\<close> are the build for a DNS name with the error masked.
  The build for a DNS name, both of them and \<^verbatim>\<open>CreateArangodAgencyClient\<close> fail when
  authentication is disabled and required, when the token secret cannot be read, and
  when the minting fails. Where no credential is selected, the build for a DNS name hands
  the driver a client config without a credential, over the connection the driver made
  for the selected config, and the agency build sets no authentication on its
  connection; where the credential is minted, the client config carries exactly that
  credential, and the agency connection is given exactly that credential before the
  agency handle is made. The world is the one the authentication step left.
\<close>

theorem client_authentication_selection:
  "(\<not> IsAuthenticated (Spec obj)
    \<longrightarrow> createArangodClientAuthentication L ctx cli (Some obj) w
          = (if requireAuthenticationKey ctx
             then Inl (maskAny (PlainError
                    ''Authentication is required by context, but not provided in API object''))
             else Inr None, w))
   \<and> (IsAuthenticated (Spec obj) \<and> skipAuthenticationKey ctx
      \<longrightarrow> createArangodClientAuthentication L ctx cli (Some obj) w = (Inr None, w))
   \<and> (IsAuthenticated (Spec obj) \<and> \<not> skipAuthenticationKey ctx \<and>
      GetTokenSecret (k (objNamespace (objMeta obj)))
        (Authentication_JWTSecretName (Spec obj)) w = (Inl err, wa)
      \<longrightarrow> createArangodClientAuthentication L ctx (Some k) (Some obj) w
            = (Inl (maskAny err), wa))
   \<and> (IsAuthenticated (Spec obj) \<and> \<not> skipAuthenticationKey ctx \<and>
      GetTokenSecret (k (objNamespace (objMeta obj)))
        (Authentication_JWTSecretName (Spec obj)) w = (Inr s, wa)
      \<longrightarrow> createArangodClientAuthentication L ctx (Some k) (Some obj) w
            = (case CreateArangodJwtAuthorizationHeader L s ''kube-arangodb'' of
                 Inl err \<Rightarrow> Inl (maskAny err)
               | Inr jwt \<Rightarrow> Inr (Some (RawAuthentication jwt)), wa))
   \<and> CreateArangodClient L ctx cli obj grp ident w
       = masking (createArangodClientForDNSName L ctx cli (Some obj)
           (CreatePodDNSName L (objMeta obj) (AsRole L grp) ident) False w)
   \<and> CreateArangodDatabaseClient L ctx cli obj short w
       = masking (createArangodClientForDNSName L ctx cli (Some obj)
           (CreateDatabaseClientServiceDNSName L (objMeta obj)) short w)
   \<and> (\<not> IsAuthenticated (Spec obj) \<and> requireAuthenticationKey ctx
      \<longrightarrow> isl (fst (createArangodClientForDNSName L ctx cli (Some obj) dnsName short w))
        \<and> isl (fst (CreateArangodClient L ctx cli obj grp ident w))
        \<and> isl (fst (CreateArangodDatabaseClient L ctx cli obj short w))
        \<and> isl (fst (CreateArangodAgencyClient L ctx cli obj w)))
   \<and> (IsAuthenticated (Spec obj) \<and> \<not> skipAuthenticationKey ctx \<and>
      GetTokenSecret (k (objNamespace (objMeta obj)))
        (Authentication_JWTSecretName (Spec obj)) w = (Inl err, wa)
      \<longrightarrow> isl (fst (createArangodClientForDNSName L ctx (Some k) (Some obj) dnsName short w))
        \<and> isl (fst (CreateArangodClient L ctx (Some k) obj grp ident w))
        \<and> isl (fst (CreateArangodDatabaseClient L ctx (Some k) obj short w))
        \<and> isl (fst (CreateArangodAgencyClient L ctx (Some k) obj w)))
   \<and> (IsAuthenticated (Spec obj) \<and> \<not> skipAuthenticationKey ctx \<and>
      GetTokenSecret (k (objNamespace (objMeta obj)))
        (Authentication_JWTSecretName (Spec obj)) w = (Inr s, wa) \<and>
      CreateArangodJwtAuthorizationHeader L s ''kube-arangodb'' = Inl err
      \<longrightarrow> isl (fst (createArangodClientForDNSName L ctx (Some k) (Some obj) dnsName short w))
        \<and> isl (fst (CreateArangodClient L ctx (Some k) obj grp ident w))
        \<and> isl (fst (CreateArangodDatabaseClient L ctx (Some k) obj short w))
        \<and> isl (fst (CreateArangodAgencyClient L ctx (Some k) obj w)))
   \<and> (((\<not> IsAuthenticated (Spec obj) \<and> \<not> requireAuthenticationKey ctx) \<or>
        (IsAuthenticated (Spec obj) \<and> skipAuthenticationKey ctx)) \<and>
      createArangodHTTPConfigForDNSNames L (Some obj) [dnsName] short = Inr cfg \<and>
      NewConnection L cfg = Inr conn
      \<longrightarrow> createArangodClientForDNSName L ctx cli (Some obj) dnsName short w
            = ((case NewClient L \<lparr>Connection = conn, ClientAuthentication = None\<rparr> of
                  Inl e \<Rightarrow> Inl (maskAny e)
                | Inr c \<Rightarrow> Inr c), w))
   \<and> (((\<not> IsAuthenticated (Spec obj) \<and> \<not> requireAuthenticationKey ctx) \<or>
        (IsAuthenticated (Spec obj) \<and> skipAuthenticationKey ctx)) \<and>
      createArangodHTTPConfigForDNSNames L (Some obj)
        (map (\<lambda>m. CreatePodDNSName L (objMeta obj) (AsRole L ServerGroupAgents) m)
           (Status_Members_Agents obj)) False = Inr cfg \<and>
      NewAgencyConnection L cfg = Inr conn
      \<longrightarrow> CreateArangodAgencyClient L ctx cli obj w
            = ((case NewAgency L conn of Inl e \<Rightarrow> Inl (maskAny e) | Inr a \<Rightarrow> Inr a), w))
   \<and> (IsAuthenticated (Spec obj) \<and> \<not> skipAuthenticationKey ctx \<and>
      GetTokenSecret (k (objNamespace (objMeta obj)))
        (Authentication_JWTSecretName (Spec obj)) w = (Inr s, wa) \<and>
      CreateArangodJwtAuthorizationHeader L s ''kube-arangodb'' = Inr jwt \<and>
      createArangodHTTPConfigForDNSNames L (Some obj) [dnsName] short = Inr cfg \<and>
      NewConnection L cfg = Inr conn
      \<longrightarrow> createArangodClientForDNSName L ctx (Some k) (Some obj) dnsName short w
            = ((case NewClient L
                       \<lparr>Connection = conn,
                        ClientAuthentication = Some (RawAuthentication jwt)\<rparr> of
                  Inl e \<Rightarrow> Inl (maskAny e)
                | Inr c \<Rightarrow> Inr c), wa))
   \<and> (IsAuthenticated (Spec obj) \<and> \<not> skipAuthenticationKey ctx \<and>
      GetTokenSecret (k (objNamespace (objMeta obj)))
        (Authentication_JWTSecretName (Spec obj)) w = (Inr s, wa) \<and>
      CreateArangodJwtAuthorizationHeader L s ''kube-arangodb'' = Inr jwt \<and>
      createArangodHTTPConfigForDNSNames L (Some obj)
        (map (\<lambda>m. CreatePodDNSName L (objMeta obj) (AsRole L ServerGroupAgents) m)
           (Status_Members_Agents obj)) False = Inr cfg \<and>
      NewAgencyConnection L cfg = Inr conn
      \<longrightarrow> CreateArangodAgencyClient L ctx (Some k) obj w
            = ((case SetAuthentication L conn (RawAuthentication jwt) of
                  Inl e \<Rightarrow> Inl (maskAny e)
                | Inr conn' \<Rightarrow>
                    (case NewAgency L conn' of Inl e \<Rightarrow> Inl (maskAny e) | Inr a \<Rightarrow> Inr a)),
               wa))"
proof (intro conjI impI)
  show "createArangodClientAuthentication L ctx cli (Some obj) w
          = (if requireAuthenticationKey ctx
             then Inl (maskAny (PlainError
                    ''Authentication is required by context, but not provided in API object''))
             else Inr None, w)"
    if "\<not> IsAuthenticated (Spec obj)"
    using that
    by (simp add: createArangodClientAuthentication_def authenticationNotEnabled_def)
next
  show "createArangodClientAuthentication L ctx cli (Some obj) w = (Inr None, w)"
    if "IsAuthenticated (Spec obj) \<and> skipAuthenticationKey ctx"
    using that by (simp add: authentication_none)
next
  show "createArangodClientAuthentication L ctx (Some k) (Some obj) w
            = (Inl (maskAny err), wa)"
    if "IsAuthenticated (Spec obj) \<and> \<not> skipAuthenticationKey ctx \<and>
      GetTokenSecret (k (objNamespace (objMeta obj)))
        (Authentication_JWTSecretName (Spec obj)) w = (Inl err, wa)"
    using that by (simp add: authentication_read)
next
  show "createArangodClientAuthentication L ctx (Some k) (Some obj) w
            = (case CreateArangodJwtAuthorizationHeader L s ''kube-arangodb'' of
                 Inl err \<Rightarrow> Inl (maskAny err)
               | Inr jwt \<Rightarrow> Inr (Some (RawAuthentication jwt)), wa)"
    if "IsAuthenticated (Spec obj) \<and> \<not> skipAuthenticationKey ctx \<and>
      GetTokenSecret (k (objNamespace (objMeta obj)))
        (Authentication_JWTSecretName (Spec obj)) w = (Inr s, wa)"
    using that by (simp add: authentication_read)
next
  show "CreateArangodClient L ctx cli obj grp ident w
       = masking (createArangodClientForDNSName L ctx cli (Some obj)
           (CreatePodDNSName L (objMeta obj) (AsRole L grp) ident) False w)"
    by (simp add: CreateArangodClient_def)
next
  show "CreateArangodDatabaseClient L ctx cli obj short w
       = masking (createArangodClientForDNSName L ctx cli (Some obj)
           (CreateDatabaseClientServiceDNSName L (objMeta obj)) short w)"
    by (simp add: CreateArangodDatabaseClient_def)
next
  assume h: "\<not> IsAuthenticated (Spec obj) \<and> requireAuthenticationKey ctx"
  then obtain e where e: "createArangodClientAuthentication L ctx cli (Some obj) w = (Inl e, w)"
    using authentication_disabled_required [of obj ctx L cli w] by blast
  note f = build_fails_when_authentication_fails [OF e]
  show "isl (fst (createArangodClientForDNSName L ctx cli (Some obj) dnsName short w))"
    using f [of dnsName short grp ident] by simp
  show "isl (fst (CreateArangodClient L ctx cli obj grp ident w))"
    using f [of dnsName short grp ident] by simp
  show "isl (fst (CreateArangodDatabaseClient L ctx cli obj short w))"
    using f [of dnsName short grp ident] by simp
  show "isl (fst (CreateArangodAgencyClient L ctx cli obj w))"
    using f [of dnsName short grp ident] by simp
next
  assume h: "IsAuthenticated (Spec obj) \<and> \<not> skipAuthenticationKey ctx \<and>
      GetTokenSecret (k (objNamespace (objMeta obj)))
        (Authentication_JWTSecretName (Spec obj)) w = (Inl err, wa)"
  then have e: "createArangodClientAuthentication L ctx (Some k) (Some obj) w
      = (Inl (maskAny err), wa)"
    by (simp add: authentication_read)
  note f = build_fails_when_authentication_fails [OF e]
  show "isl (fst (createArangodClientForDNSName L ctx (Some k) (Some obj) dnsName short w))"
    using f [of dnsName short grp ident] by simp
  show "isl (fst (CreateArangodClient L ctx (Some k) obj grp ident w))"
    using f [of dnsName short grp ident] by simp
  show "isl (fst (CreateArangodDatabaseClient L ctx (Some k) obj short w))"
    using f [of dnsName short grp ident] by simp
  show "isl (fst (CreateArangodAgencyClient L ctx (Some k) obj w))"
    using f [of dnsName short grp ident] by simp
next
  assume h: "IsAuthenticated (Spec obj) \<and> \<not> skipAuthenticationKey ctx \<and>
      GetTokenSecret (k (objNamespace (objMeta obj)))
        (Authentication_JWTSecretName (Spec obj)) w = (Inr s, wa) \<and>
      CreateArangodJwtAuthorizationHeader L s ''kube-arangodb'' = Inl err"
  then have e: "createArangodClientAuthentication L ctx (Some k) (Some obj) w
      = (Inl (maskAny err), wa)"
    by (simp add: authentication_read)
  note f = build_fails_when_authentication_fails [OF e]
  show "isl (fst (createArangodClientForDNSName L ctx (Some k) (Some obj) dnsName short w))"
    using f [of dnsName short grp ident] by simp
  show "isl (fst (CreateArangodClient L ctx (Some k) obj grp ident w))"
    using f [of dnsName short grp ident] by simp
  show "isl (fst (CreateArangodDatabaseClient L ctx (Some k) obj short w))"
    using f [of dnsName short grp ident] by simp
  show "isl (fst (CreateArangodAgencyClient L ctx (Some k) obj w))"
    using f [of dnsName short grp ident] by simp
next
  assume h: "((\<not> IsAuthenticated (Spec obj) \<and> \<not> requireAuthenticationKey ctx) \<or>
        (IsAuthenticated (Spec obj) \<and> skipAuthenticationKey ctx)) \<and>
      createArangodHTTPConfigForDNSNames L (Some obj) [dnsName] short = Inr cfg \<and>
      NewConnection L cfg = Inr conn"
  then have e: "createArangodClientAuthentication L ctx cli (Some obj) w = (Inr None, w)"
    using authentication_none [of obj ctx L cli w] by simp
  from h have c: "createArangodHTTPConfigForDNSNames L (Some obj) [dnsName] short = Inr cfg"
    and n: "NewConnection L cfg = Inr conn"
    by simp_all
  show "createArangodClientForDNSName L ctx cli (Some obj) dnsName short w
            = ((case NewClient L \<lparr>Connection = conn, ClientAuthentication = None\<rparr> of
                  Inl e \<Rightarrow> Inl (maskAny e)
                | Inr c \<Rightarrow> Inr c), w)"
    using build_with_authentication [OF e c n] .
next
  assume h: "((\<not> IsAuthenticated (Spec obj) \<and> \<not> requireAuthenticationKey ctx) \<or>
        (IsAuthenticated (Spec obj) \<and> skipAuthenticationKey ctx)) \<and>
      createArangodHTTPConfigForDNSNames L (Some obj)
        (map (\<lambda>m. CreatePodDNSName L (objMeta obj) (AsRole L ServerGroupAgents) m)
           (Status_Members_Agents obj)) False = Inr cfg \<and>
      NewAgencyConnection L cfg = Inr conn"
  then have e: "createArangodClientAuthentication L ctx cli (Some obj) w = (Inr None, w)"
    using authentication_none [of obj ctx L cli w] by simp
  from h have c: "createArangodHTTPConfigForDNSNames L (Some obj)
        (map (\<lambda>m. CreatePodDNSName L (objMeta obj) (AsRole L ServerGroupAgents) m)
           (Status_Members_Agents obj)) False = Inr cfg"
    and n: "NewAgencyConnection L cfg = Inr conn"
    by simp_all
  show "CreateArangodAgencyClient L ctx cli obj w
            = ((case NewAgency L conn of Inl e \<Rightarrow> Inl (maskAny e) | Inr a \<Rightarrow> Inr a), w)"
    using agency_build_without_credential [OF e c n] .
next
  assume h: "IsAuthenticated (Spec obj) \<and> \<not> skipAuthenticationKey ctx \<and>
      GetTokenSecret (k (objNamespace (objMeta obj)))
        (Authentication_JWTSecretName (Spec obj)) w = (Inr s, wa) \<and>
      CreateArangodJwtAuthorizationHeader L s ''kube-arangodb'' = Inr jwt \<and>
      createArangodHTTPConfigForDNSNames L (Some obj) [dnsName] short = Inr cfg \<and>
      NewConnection L cfg = Inr conn"
  then have e: "createArangodClientAuthentication L ctx (Some k) (Some obj) w
      = (Inr (Some (RawAuthentication jwt)), wa)"
    by (simp add: authentication_read)
  from h have c: "createArangodHTTPConfigForDNSNames L (Some obj) [dnsName] short = Inr cfg"
    and n: "NewConnection L cfg = Inr conn"
    by simp_all
  show "createArangodClientForDNSName L ctx (Some k) (Some obj) dnsName short w
            = ((case NewClient L
                       \<lparr>Connection = conn,
                        ClientAuthentication = Some (RawAuthentication jwt)\<rparr> of
                  Inl e \<Rightarrow> Inl (maskAny e)
                | Inr c \<Rightarrow> Inr c), wa)"
    using build_with_authentication [OF e c n] .
next
  assume h: "IsAuthenticated (Spec obj) \<and> \<not> skipAuthenticationKey ctx \<and>
      GetTokenSecret (k (objNamespace (objMeta obj)))
        (Authentication_JWTSecretName (Spec obj)) w = (Inr s, wa) \<and>
      CreateArangodJwtAuthorizationHeader L s ''kube-arangodb'' = Inr jwt \<and>
      createArangodHTTPConfigForDNSNames L (Some obj)
        (map (\<lambda>m. CreatePodDNSName L (objMeta obj) (AsRole L ServerGroupAgents) m)
           (Status_Members_Agents obj)) False = Inr cfg \<and>
      NewAgencyConnection L cfg = Inr conn"
  then have e: "createArangodClientAuthentication L ctx (Some k) (Some obj) w
      = (Inr (Some (RawAuthentication jwt)), wa)"
    by (simp add: authentication_read)
  from h have c: "createArangodHTTPConfigForDNSNames L (Some obj)
        (map (\<lambda>m. CreatePodDNSName L (objMeta obj) (AsRole L ServerGroupAgents) m)
           (Status_Members_Agents obj)) False = Inr cfg"
    and n: "NewAgencyConnection L cfg = Inr conn"
    by simp_all
  show "CreateArangodAgencyClient L ctx (Some k) obj w
            = ((case SetAuthentication L conn (RawAuthentication jwt) of
                  Inl e \<Rightarrow> Inl (maskAny e)
                | Inr conn' \<Rightarrow>
                    (case NewAgency L conn' of Inl e \<Rightarrow> Inl (maskAny e) | Inr a \<Rightarrow> Inr a)),
               wa)"
    using agency_build_with_credential [OF e c n] .
qed

theorem client_authentication_selection_witness:
  "createArangodClientAuthentication toyDriver Background (Some (\<lambda>ns. memEnv toyCodec))
       (Some (testDeployment False)) signedWorld = (Inr None, signedWorld)
   \<and> isl (fst (createArangodClientAuthentication toyDriver
       (WithRequireAuthentication Background) (Some (\<lambda>ns. memEnv toyCodec))
       (Some (testDeployment False)) signedWorld))
   \<and> createArangodClientAuthentication toyDriver (WithSkipAuthentication Background)
       (Some (\<lambda>ns. memEnv toyCodec)) (Some (testDeployment True)) signedWorld
     = (Inr None, signedWorld)
   \<and> createArangodClientAuthentication toyDriver Background (Some (\<lambda>ns. memEnv toyCodec))
       (Some (testDeployment True)) emptyWorld
     = (Inl (maskAny (maskAny (StatusError StatusReasonNotFound))), emptyWorld)
   \<and> createArangodClientAuthentication toyDriver Background (Some (\<lambda>ns. memEnv toyCodec))
       (Some (testDeployment True)) signedWorld
     = (Inr (Some (RawAuthentication ''bearer kube-arangodb.s3cr3t'')), signedWorld)
   \<and> isl (fst (CreateArangodClient toyDriver (WithRequireAuthentication Background)
       (Some (\<lambda>ns. memEnv toyCodec)) (testDeployment False) ServerGroupAgents ''a1''
       signedWorld))
   \<and> isl (fst (CreateArangodAgencyClient toyDriver (WithRequireAuthentication Background)
       (Some (\<lambda>ns. memEnv toyCodec)) (testDeployment False) signedWorld))
   \<and> isl (fst (CreateArangodDatabaseClient toyDriver Background
       (Some (\<lambda>ns. memEnv toyCodec)) (testDeployment True) False emptyWorld))
   \<and> isl (fst (CreateArangodAgencyClient
       (toyDriver\<lparr>CreateArangodJwtAuthorizationHeader :=
          (\<lambda>s ident. Inl (PlainError ''no signing method''))\<rparr>)
       Background (Some (\<lambda>ns. memEnv toyCodec)) (testDeployment True) signedWorld))
   \<and> createArangodClientForDNSName toyDriver (WithSkipAuthentication Background)
       (Some (\<lambda>ns. memEnv toyCodec)) (Some (testDeployment True)) ''depl-member-a1'' False
       signedWorld
     = (Inr \<lparr>Connection =
               \<lparr>Endpoints = [''http://depl-member-a1:8529''],
                ConnTransport = sharedHTTPTransport, DontFollowRedirect = True\<rparr>,
             ClientAuthentication = None\<rparr>, signedWorld)
   \<and> CreateArangodAgencyClient toyDriver Background (Some (\<lambda>ns. memEnv toyCodec))
       (testDeployment False) signedWorld
     = (Inr \<lparr>Endpoints =
               [''http://depl-member-a1:8529'', ''http://depl-member-a2:8529'',
                ''http://depl-member-a3:8529''],
             ConnTransport = sharedHTTPTransport, DontFollowRedirect = True\<rparr>, signedWorld)
   \<and> createArangodClientForDNSName toyDriver Background
       (Some (\<lambda>ns. memEnv toyCodec)) (Some (testDeployment True)) ''depl-member-a1'' False
       signedWorld
     = (Inr \<lparr>Connection =
               \<lparr>Endpoints = [''http://depl-member-a1:8529''],
                ConnTransport = sharedHTTPTransport, DontFollowRedirect = True\<rparr>,
             ClientAuthentication =
               Some (RawAuthentication ''bearer kube-arangodb.s3cr3t'')\<rparr>, signedWorld)
   \<and> CreateArangodClient toyDriver Background
       (Some (\<lambda>ns. memEnv toyCodec)) (testDeployment True) ServerGroupAgents ''a1''
       signedWorld
     = (Inr \<lparr>Connection =
               \<lparr>Endpoints = [''http://depl-member-a1:8529''],
                ConnTransport = sharedHTTPTransport, DontFollowRedirect = True\<rparr>,
             ClientAuthentication =
               Some (RawAuthentication ''bearer kube-arangodb.s3cr3t'')\<rparr>, signedWorld)
   \<and> CreateArangodAgencyClient toyDriver Background (Some (\<lambda>ns. memEnv toyCodec))
       (testDeployment True) signedWorld
     = (Inr \<lparr>Endpoints =
               [''http://depl-member-a1:8529'', ''http://depl-member-a2:8529'',
                ''http://depl-member-a3:8529''],
             ConnTransport = sharedHTTPTransport, DontFollowRedirect = True\<rparr>, signedWorld)"
proof -
  let ?cli = "\<lambda>ns::string. memEnv toyCodec"
  let ?cfg = "\<lparr>Endpoints = [''http://depl-member-a1:8529''],
                ConnTransport = sharedHTTPTransport, DontFollowRedirect = True\<rparr>"
  let ?cfgs = "\<lparr>Endpoints =
               [''http://depl-member-a1:8529'', ''http://depl-member-a2:8529'',
                ''http://depl-member-a3:8529''],
             ConnTransport = sharedHTTPTransport, DontFollowRedirect = True\<rparr>"
  let ?nomint = "toyDriver\<lparr>CreateArangodJwtAuthorizationHeader :=
          (\<lambda>s ident. Inl (PlainError ''no signing method''))\<rparr>"
  note T = client_authentication_selection
  note dep = testDeployment_def testSpec_def Background_def
  note mem = memEnv_def memGetTokenSecret_def memGet_def
  have a: "createArangodClientAuthentication toyDriver Background (Some ?cli)
       (Some (testDeployment False)) signedWorld = (Inr None, signedWorld)"
    using T [where obj = "testDeployment False" and L = toyDriver and ctx = Background
               and cli = "Some ?cli" and w = signedWorld, THEN conjunct1]
    by (simp add: dep)
  have b: "isl (fst (createArangodClientAuthentication toyDriver
       (WithRequireAuthentication Background) (Some ?cli)
       (Some (testDeployment False)) signedWorld))"
    using T [where obj = "testDeployment False" and L = toyDriver
               and ctx = "WithRequireAuthentication Background"
               and cli = "Some ?cli" and w = signedWorld, THEN conjunct1]
    by (simp add: dep WithRequireAuthentication_def)
  have c: "createArangodClientAuthentication toyDriver (WithSkipAuthentication Background)
       (Some ?cli) (Some (testDeployment True)) signedWorld = (Inr None, signedWorld)"
    using T [where obj = "testDeployment True" and L = toyDriver
               and ctx = "WithSkipAuthentication Background"
               and cli = "Some ?cli" and w = signedWorld, THEN conjunct2, THEN conjunct1]
    by (simp add: dep WithSkipAuthentication_def)
  have d: "createArangodClientAuthentication toyDriver Background (Some ?cli)
       (Some (testDeployment True)) emptyWorld
     = (Inl (maskAny (maskAny (StatusError StatusReasonNotFound))), emptyWorld)"
    using T [where obj = "testDeployment True" and L = toyDriver and ctx = Background
               and k = ?cli and w = emptyWorld
               and err = "maskAny (StatusError StatusReasonNotFound)" and wa = emptyWorld,
             THEN conjunct2, THEN conjunct2, THEN conjunct1]
    by (simp add: dep mem emptyWorld_def)
  have e: "createArangodClientAuthentication toyDriver Background (Some ?cli)
       (Some (testDeployment True)) signedWorld
     = (Inr (Some (RawAuthentication ''bearer kube-arangodb.s3cr3t'')), signedWorld)"
    using T [where obj = "testDeployment True" and L = toyDriver and ctx = Background
               and k = ?cli and w = signedWorld and s = "''s3cr3t''" and wa = signedWorld,
             THEN conjunct2, THEN conjunct2, THEN conjunct2, THEN conjunct1]
    by (simp add: dep mem signedWorld_def plainSecret_def toyDriver_def)
  have f: "isl (fst (CreateArangodClient toyDriver (WithRequireAuthentication Background)
         (Some ?cli) (testDeployment False) ServerGroupAgents ''a1'' signedWorld))
     \<and> isl (fst (CreateArangodAgencyClient toyDriver (WithRequireAuthentication Background)
         (Some ?cli) (testDeployment False) signedWorld))"
    using T [where obj = "testDeployment False" and L = toyDriver
               and ctx = "WithRequireAuthentication Background"
               and cli = "Some ?cli" and w = signedWorld
               and grp = ServerGroupAgents and ident = "''a1''",
             THEN conjunct2, THEN conjunct2, THEN conjunct2, THEN conjunct2,
             THEN conjunct2, THEN conjunct2, THEN conjunct1]
    by (simp add: dep WithRequireAuthentication_def)
  have g: "isl (fst (CreateArangodDatabaseClient toyDriver Background
       (Some ?cli) (testDeployment True) False emptyWorld))"
    using T [where obj = "testDeployment True" and L = toyDriver and ctx = Background
               and k = ?cli and w = emptyWorld and short = False
               and err = "maskAny (StatusError StatusReasonNotFound)" and wa = emptyWorld,
             THEN conjunct2, THEN conjunct2, THEN conjunct2, THEN conjunct2,
             THEN conjunct2, THEN conjunct2, THEN conjunct2, THEN conjunct1]
    by (simp add: dep mem emptyWorld_def)
  have h: "isl (fst (CreateArangodAgencyClient ?nomint Background (Some ?cli)
       (testDeployment True) signedWorld))"
    using T [where obj = "testDeployment True" and L = ?nomint and ctx = Background
               and k = ?cli and w = signedWorld and s = "''s3cr3t''" and wa = signedWorld
               and err = "PlainError ''no signing method''",
             THEN conjunct2, THEN conjunct2, THEN conjunct2, THEN conjunct2,
             THEN conjunct2, THEN conjunct2, THEN conjunct2, THEN conjunct2,
             THEN conjunct1]
    by (simp add: dep mem signedWorld_def plainSecret_def)
  have i: "createArangodClientForDNSName toyDriver (WithSkipAuthentication Background)
       (Some ?cli) (Some (testDeployment True)) ''depl-member-a1'' False signedWorld
     = (Inr \<lparr>Connection = ?cfg, ClientAuthentication = None\<rparr>, signedWorld)"
    using T [where obj = "testDeployment True" and L = toyDriver
               and ctx = "WithSkipAuthentication Background"
               and cli = "Some ?cli" and w = signedWorld
               and dnsName = "''depl-member-a1''" and short = False
               and cfg = ?cfg and conn = ?cfg,
             THEN conjunct2, THEN conjunct2, THEN conjunct2, THEN conjunct2,
             THEN conjunct2, THEN conjunct2, THEN conjunct2, THEN conjunct2,
             THEN conjunct2, THEN conjunct1]
    by (simp add: dep WithSkipAuthentication_def toyDriver_def
        createArangodHTTPConfigForDNSNames_def Let_def)
  have j: "CreateArangodAgencyClient toyDriver Background (Some ?cli)
       (testDeployment False) signedWorld = (Inr ?cfgs, signedWorld)"
    using T [where obj = "testDeployment False" and L = toyDriver and ctx = Background
               and cli = "Some ?cli" and w = signedWorld
               and cfg = ?cfgs and conn = ?cfgs,
             THEN conjunct2, THEN conjunct2, THEN conjunct2, THEN conjunct2,
             THEN conjunct2, THEN conjunct2, THEN conjunct2, THEN conjunct2,
             THEN conjunct2, THEN conjunct2, THEN conjunct1]
    by (simp add: dep toyDriver_def createArangodHTTPConfigForDNSNames_def Let_def)
  have k: "createArangodClientForDNSName toyDriver Background
       (Some ?cli) (Some (testDeployment True)) ''depl-member-a1'' False signedWorld
     = (Inr \<lparr>Connection = ?cfg,
             ClientAuthentication =
               Some (RawAuthentication ''bearer kube-arangodb.s3cr3t'')\<rparr>, signedWorld)"
    using T [where obj = "testDeployment True" and L = toyDriver and ctx = Background
               and k = ?cli and w = signedWorld and s = "''s3cr3t''" and wa = signedWorld
               and jwt = "''bearer kube-arangodb.s3cr3t''"
               and dnsName = "''depl-member-a1''" and short = False
               and cfg = ?cfg and conn = ?cfg,
             THEN conjunct2, THEN conjunct2, THEN conjunct2, THEN conjunct2,
             THEN conjunct2, THEN conjunct2, THEN conjunct2, THEN conjunct2,
             THEN conjunct2, THEN conjunct2, THEN conjunct2, THEN conjunct1]
    by (simp add: dep mem signedWorld_def plainSecret_def toyDriver_def
        createArangodHTTPConfigForDNSNames_def Let_def)
  have l: "CreateArangodClient toyDriver Background
       (Some ?cli) (testDeployment True) ServerGroupAgents ''a1'' signedWorld
     = (Inr \<lparr>Connection = ?cfg,
             ClientAuthentication =
               Some (RawAuthentication ''bearer kube-arangodb.s3cr3t'')\<rparr>, signedWorld)"
  proof -
    have n: "CreatePodDNSName toyDriver (objMeta (testDeployment True))
        (AsRole toyDriver ServerGroupAgents) ''a1'' = ''depl-member-a1''"
      by (simp add: toyDriver_def testDeployment_def)
    from T [where obj = "testDeployment True" and L = toyDriver and ctx = Background
               and cli = "Some ?cli" and w = signedWorld
               and grp = ServerGroupAgents and ident = "''a1''",
             THEN conjunct2, THEN conjunct2, THEN conjunct2, THEN conjunct2, THEN conjunct1]
    show ?thesis by (simp add: n k masking_def)
  qed
  have m: "CreateArangodAgencyClient toyDriver Background (Some ?cli)
       (testDeployment True) signedWorld = (Inr ?cfgs, signedWorld)"
    using T [where obj = "testDeployment True" and L = toyDriver and ctx = Background
               and k = ?cli and w = signedWorld and s = "''s3cr3t''" and wa = signedWorld
               and jwt = "''bearer kube-arangodb.s3cr3t''"
               and cfg = ?cfgs and conn = ?cfgs,
             THEN conjunct2, THEN conjunct2, THEN conjunct2, THEN conjunct2,
             THEN conjunct2, THEN conjunct2, THEN conjunct2, THEN conjunct2,
             THEN conjunct2, THEN conjunct2, THEN conjunct2, THEN conjunct2]
    by (simp add: dep mem signedWorld_def plainSecret_def toyDriver_def
        createArangodHTTPConfigForDNSNames_def Let_def)
  from a b c d e f g h i j k l m show ?thesis by simp
qed

text \<open>
  C8 (as amended). The transport of every connection config is one of the four pools,
  chosen by two booleans: whether the deployment is present and secure, and whether a
  short timeout was asked for; every pool is chosen by some pair. The TLS pools are the
  two with a TLS client config. All four pools dial with a timeout of 30 seconds; the
  idle-connection timeout and the dialer's keep-alive are 90 seconds in the two normal
  pools and 100 milliseconds in the two short-timeout pools.
\<close>

theorem transport_pool_selection:
  "(\<exists>cfg. createArangodHTTPConfigForDNSNames L apiObject dnsNames shortTimeout = Inr cfg
      \<and> ConnTransport cfg =
          (if (case apiObject of None \<Rightarrow> False | Some obj \<Rightarrow> IsSecure (Spec obj))
           then (if shortTimeout then sharedHTTPSTransportShortTimeout
                 else sharedHTTPSTransport)
           else (if shortTimeout then sharedHTTPTransportShortTimeout
                 else sharedHTTPTransport)))
   \<and> (\<forall>p. \<exists>obj short. \<exists>cfg.
         createArangodHTTPConfigForDNSNames L obj dnsNames short = Inr cfg
         \<and> ConnTransport cfg = p)
   \<and> (\<forall>p. (TLSClientConfig (transportAt p) = None)
           = (p = sharedHTTPTransport \<or> p = sharedHTTPTransportShortTimeout))
   \<and> (\<forall>p. Timeout (DialContext (transportAt p)) = 30 * 1000000000)
   \<and> (\<forall>p. IdleConnTimeout (transportAt p)
           = (if p = sharedHTTPTransportShortTimeout \<or> p = sharedHTTPSTransportShortTimeout
              then 100 * 1000000 else 90 * 1000000000))
   \<and> (\<forall>p. KeepAlive (DialContext (transportAt p))
           = (if p = sharedHTTPTransportShortTimeout \<or> p = sharedHTTPSTransportShortTimeout
              then 100 * 1000000 else 90 * 1000000000))"
proof (intro conjI allI)
  show "\<exists>cfg. createArangodHTTPConfigForDNSNames L apiObject dnsNames shortTimeout = Inr cfg
      \<and> ConnTransport cfg =
          (if (case apiObject of None \<Rightarrow> False | Some obj \<Rightarrow> IsSecure (Spec obj))
           then (if shortTimeout then sharedHTTPSTransportShortTimeout
                 else sharedHTTPSTransport)
           else (if shortTimeout then sharedHTTPTransportShortTimeout
                 else sharedHTTPTransport))"
    by (simp add: createArangodHTTPConfigForDNSNames_def Let_def)
next
  fix p
  show "\<exists>obj short. \<exists>cfg.
         createArangodHTTPConfigForDNSNames L obj dnsNames short = Inr cfg
         \<and> ConnTransport cfg = p"
  proof (cases p)
    case sharedHTTPTransport
    then show ?thesis
      by (intro exI [of _ None] exI [of _ False])
        (simp add: createArangodHTTPConfigForDNSNames_def Let_def)
  next
    case sharedHTTPSTransport
    then show ?thesis
      by (intro exI [of _ "Some (testDeployment False\<lparr>Spec := testSpec False False True False False\<rparr>)"]
            exI [of _ False])
        (simp add: createArangodHTTPConfigForDNSNames_def Let_def testSpec_def)
  next
    case sharedHTTPTransportShortTimeout
    then show ?thesis
      by (intro exI [of _ None] exI [of _ True])
        (simp add: createArangodHTTPConfigForDNSNames_def Let_def)
  next
    case sharedHTTPSTransportShortTimeout
    then show ?thesis
      by (intro exI [of _ "Some (testDeployment False\<lparr>Spec := testSpec False False True False False\<rparr>)"]
            exI [of _ True])
        (simp add: createArangodHTTPConfigForDNSNames_def Let_def testSpec_def)
  qed
next
  fix p
  show "(TLSClientConfig (transportAt p) = None)
           = (p = sharedHTTPTransport \<or> p = sharedHTTPTransportShortTimeout)"
    by (cases p) simp_all
next
  fix p
  show "Timeout (DialContext (transportAt p)) = 30 * 1000000000"
    by (cases p) (simp_all add: Second_def Millisecond_def)
next
  fix p
  show "IdleConnTimeout (transportAt p)
           = (if p = sharedHTTPTransportShortTimeout \<or> p = sharedHTTPSTransportShortTimeout
              then 100 * 1000000 else 90 * 1000000000)"
    by (cases p) (simp_all add: Second_def Millisecond_def)
next
  fix p
  show "KeepAlive (DialContext (transportAt p))
           = (if p = sharedHTTPTransportShortTimeout \<or> p = sharedHTTPSTransportShortTimeout
              then 100 * 1000000 else 90 * 1000000000)"
    by (cases p) (simp_all add: Second_def Millisecond_def)
qed

text \<open>
  C8 as stated gives the short-timeout pools a dial timeout of 100 milliseconds and the
  normal pools an idle timeout of 30 seconds. In the code the short-timeout pool dials with
  30 seconds, and the normal pool keeps idle connections for 90 seconds.
\<close>

theorem short_pool_dial_timeout_is_30s:
  "Timeout (DialContext (transportAt sharedHTTPTransportShortTimeout)) = 30 * Second
   \<and> Timeout (DialContext (transportAt sharedHTTPTransportShortTimeout)) \<noteq> 100 * Millisecond
   \<and> Timeout (DialContext (transportAt sharedHTTPSTransportShortTimeout)) \<noteq> 100 * Millisecond
   \<and> IdleConnTimeout (transportAt sharedHTTPTransport) = 90 * Second
   \<and> IdleConnTimeout (transportAt sharedHTTPTransport) \<noteq> 30 * Second
   \<and> IdleConnTimeout (transportAt sharedHTTPSTransport) \<noteq> 30 * Second"
  by (simp add: Second_def Millisecond_def)

text \<open>
  C10. A client built with no API object: the authentication step reads nothing and
  answers no credential, unless the context carries the require-authentication marker,
  and then an error, whatever the store holds. \<^verbatim>\<open>CreateArangodImageIDClient\<close> therefore
  fails under the require marker, whatever the driver does; without the marker it hands
  the driver a client config with no credential over the plain normal pool, and succeeds
  with the driver's client whenever the driver's two constructors succeed. The world is
  untouched in every case.
\<close>

theorem image_id_client_authentication:
  "createArangodClientAuthentication L ctx cli None w
     = (if requireAuthenticationKey ctx
        then Inl (maskAny (PlainError
               ''Authentication is required by context, but not provided in API object''))
        else Inr None, w)
   \<and> snd (CreateArangodImageIDClient L ctx deployment role ident w) = w
   \<and> (requireAuthenticationKey ctx
      \<longrightarrow> isl (fst (CreateArangodImageIDClient L ctx deployment role ident w)))
   \<and> (\<not> requireAuthenticationKey ctx \<and>
      NewConnection L
        \<lparr>Endpoints =
           [''http://'' @ JoinHostPort L (CreatePodDNSName L deployment role ident)
                            (Itoa L (ArangoPort L))],
         ConnTransport = sharedHTTPTransport, DontFollowRedirect = True\<rparr> = Inr conn \<and>
      NewClient L \<lparr>Connection = conn, ClientAuthentication = None\<rparr> = Inr c
      \<longrightarrow> CreateArangodImageIDClient L ctx deployment role ident w = (Inr c, w))"
  by (simp add: CreateArangodImageIDClient_def createArangodClientForDNSName_def
      createArangodClientAuthentication_def authenticationNotEnabled_def
      createArangodHTTPConfigForDNSNames_def masking_def Let_def
      split: sum.splits)

theorem image_id_client_authentication_witness:
  "isl (fst (CreateArangodImageIDClient toyDriver (WithRequireAuthentication Background)
       \<lparr>objName = ''depl'', objNamespace = ''ns''\<rparr> ''id'' ''x'' signedWorld))
   \<and> CreateArangodImageIDClient toyDriver Background
       \<lparr>objName = ''depl'', objNamespace = ''ns''\<rparr> ''id'' ''x'' signedWorld
     = (Inr \<lparr>Connection =
               \<lparr>Endpoints = [''http://depl-id-x:8529''],
                ConnTransport = sharedHTTPTransport, DontFollowRedirect = True\<rparr>,
             ClientAuthentication = None\<rparr>, signedWorld)"
proof -
  let ?d = "\<lparr>objName = ''depl'', objNamespace = ''ns''\<rparr>"
  let ?cfg = "\<lparr>Endpoints = [''http://depl-id-x:8529''],
                ConnTransport = sharedHTTPTransport, DontFollowRedirect = True\<rparr>"
  note T = image_id_client_authentication
  have a: "isl (fst (CreateArangodImageIDClient toyDriver (WithRequireAuthentication Background)
       ?d ''id'' ''x'' signedWorld))"
    using T [where L = toyDriver and ctx = "WithRequireAuthentication Background"
               and deployment = ?d and role = "''id''" and ident = "''x''"
               and w = signedWorld, THEN conjunct2, THEN conjunct2, THEN conjunct1]
    by (simp add: WithRequireAuthentication_def)
  have b: "CreateArangodImageIDClient toyDriver Background ?d ''id'' ''x'' signedWorld
     = (Inr \<lparr>Connection = ?cfg, ClientAuthentication = None\<rparr>, signedWorld)"
    using T [where L = toyDriver and ctx = Background
               and deployment = ?d and role = "''id''" and ident = "''x''"
               and w = signedWorld and conn = ?cfg
               and c = "\<lparr>Connection = ?cfg, ClientAuthentication = None\<rparr>",
             THEN conjunct2, THEN conjunct2, THEN conjunct2]
    by (simp add: Background_def toyDriver_def)
  from a b show ?thesis by simp
qed

end
